theory Spec2Isabelle
  imports Main "HOL-Library.Sublist" "HOL-Library.AList"
begin

section \<open>JavaScript strings\<close>

text \<open>
  A string is held as the list of the bytes of its UTF-8 encoding. The white space
  that \<open>trim\<close> and \<open>parseInt\<close> strip is the set WhiteSpace and LineTerminator of the
  language: U+0009 to U+000D, U+0020, U+00A0, U+1680, U+2000 to U+200A, U+2028,
  U+2029, U+202F, U+205F, U+3000 and U+FEFF, here as their byte sequences.
\<close>

definition ws_seqs :: "string list" where
  "ws_seqs =
    [ [CHR 0x09],
      [CHR 0x0A],
      [CHR 0x0B],
      [CHR 0x0C],
      [CHR 0x0D],
      [CHR 0x20],
      [CHR 0xC2, CHR 0xA0],
      [CHR 0xE1, CHR 0x9A, CHR 0x80],
      [CHR 0xE2, CHR 0x80, CHR 0x80],
      [CHR 0xE2, CHR 0x80, CHR 0x81],
      [CHR 0xE2, CHR 0x80, CHR 0x82],
      [CHR 0xE2, CHR 0x80, CHR 0x83],
      [CHR 0xE2, CHR 0x80, CHR 0x84],
      [CHR 0xE2, CHR 0x80, CHR 0x85],
      [CHR 0xE2, CHR 0x80, CHR 0x86],
      [CHR 0xE2, CHR 0x80, CHR 0x87],
      [CHR 0xE2, CHR 0x80, CHR 0x88],
      [CHR 0xE2, CHR 0x80, CHR 0x89],
      [CHR 0xE2, CHR 0x80, CHR 0x8A],
      [CHR 0xE2, CHR 0x80, CHR 0xA8],
      [CHR 0xE2, CHR 0x80, CHR 0xA9],
      [CHR 0xE2, CHR 0x80, CHR 0xAF],
      [CHR 0xE2, CHR 0x81, CHR 0x9F],
      [CHR 0xE3, CHR 0x80, CHR 0x80],
      [CHR 0xEF, CHR 0xBB, CHR 0xBF] ]"

text \<open>Remove white space sequences from the front, at most \<open>n\<close> of them.\<close>

primrec strip_ws :: "string list \<Rightarrow> nat \<Rightarrow> string \<Rightarrow> string" where
  "strip_ws seqs 0 s = s"
| "strip_ws seqs (Suc n) s =
     (case find (\<lambda>w. prefix w s) seqs of
        None \<Rightarrow> s
      | Some w \<Rightarrow> strip_ws seqs n (drop (length w) s))"

definition strip_leading :: "string \<Rightarrow> string" where
  "strip_leading s = strip_ws ws_seqs (length s) s"

definition trim :: "string \<Rightarrow> string" where
  "trim s = rev (strip_ws (map rev ws_seqs) (length s) (rev (strip_leading s)))"

text \<open>
  \<open>String.prototype.toLowerCase\<close> follows the Unicode case tables of the runtime; the
  functions that use it take it as a parameter. \<open>ascii_lower\<close> is the part of it on
  the ASCII letters and serves in the examples, whose texts are ASCII.
\<close>

definition lower_char :: "char \<Rightarrow> char" where
  "lower_char c = (let n = (of_char c :: nat) in if 65 \<le> n \<and> n \<le> 90 then char_of (n + 32) else c)"

definition ascii_lower :: "string \<Rightarrow> string" where
  "ascii_lower s = map lower_char s"

text \<open>\<open>hay.includes(needle)\<close>: the needle occurs as a contiguous piece of the hay.\<close>

fun str_includes :: "string \<Rightarrow> string \<Rightarrow> bool" where
  "str_includes [] needle = (needle = [])"
| "str_includes (c # cs) needle = (prefix needle (c # cs) \<or> str_includes cs needle)"

text \<open>\<open>s.split(',')\<close>: the pieces between the separators; the empty string gives one empty piece.\<close>

fun split_on :: "char \<Rightarrow> string \<Rightarrow> string list" where
  "split_on sep [] = [Nil]"
| "split_on sep (c # cs) =
     (if c = sep then [] # split_on sep cs
      else (case split_on sep cs of [] \<Rightarrow> [c # Nil] | p # ps \<Rightarrow> (c # p) # ps))"

text \<open>Decimal digits and the decimal text of an integer: \<open>String(n)\<close>, \<open>n.toString()\<close>.\<close>

definition is_digit :: "char \<Rightarrow> bool" where
  "is_digit c = (let n = (of_char c :: nat) in 48 \<le> n \<and> n \<le> 57)"

definition digit_val :: "char \<Rightarrow> nat" where
  "digit_val c = (of_char c :: nat) - 48"

definition digit_char :: "nat \<Rightarrow> char" where
  "digit_char d = char_of (48 + d)"

fun nat_to_string :: "nat \<Rightarrow> string" where
  "nat_to_string n = (if n < 10 then [digit_char n] else nat_to_string (n div 10) @ [digit_char (n mod 10)])"

declare nat_to_string.simps [simp del]

definition int_to_string :: "int \<Rightarrow> string" where
  "int_to_string i = (if i < 0 then CHR ''-'' # nat_to_string (nat (- i)) else nat_to_string (nat i))"

definition digits_to_nat :: "string \<Rightarrow> nat" where
  "digits_to_nat ds = foldl (\<lambda>acc c. 10 * acc + digit_val c) 0 ds"

text \<open>
  \<open>Number(s)\<close> and \<open>String(n)\<close> belong to the runtime (\<open>Number\<close> reads fractions,
  exponents, radix prefixes and \<open>Infinity\<close>, and rounds to a double). The handler that
  converts a \<open>day\<close> text takes as a parameter the function that gives \<open>String(Number(s))\<close>,
  or \<open>None\<close> when \<open>Number(s)\<close> is NaN. \<open>integer_number\<close> is that function on the texts
  of small integers (optional white space around an optional sign and decimal digits),
  for the examples.
\<close>

definition integer_number :: "string \<Rightarrow> string option" where
  "integer_number s =
     (let t = trim s in
      case t of
        [] \<Rightarrow> Some ''0''
      | c # cs \<Rightarrow>
          (if c = CHR ''-'' then (if cs \<noteq> [] \<and> list_all is_digit cs then Some (int_to_string (- int (digits_to_nat cs))) else None)
           else if c = CHR ''+'' then (if cs \<noteq> [] \<and> list_all is_digit cs then Some (int_to_string (int (digits_to_nat cs))) else None)
           else if list_all is_digit t then Some (int_to_string (int (digits_to_nat t))) else None))"

section \<open>Server: the stored data (server.js)\<close>

text \<open>
  The \<open>day\<close> field of a memory is stored as a number when the submitted text is
  numeric and as the text itself otherwise. A stored number is held by its text
  \<open>String(n)\<close>, which is what the handlers read of it.
\<close>

datatype day_value = DayNum string | DayStr string

fun day_to_string :: "day_value \<Rightarrow> string" where
  "day_to_string (DayNum n) = n"
| "day_to_string (DayStr s) = s"

record memory =
  mem_id :: string
  mem_user :: string
  mem_title :: string
  mem_text :: string
  mem_date :: string
  mem_tags :: "string list"
  mem_location :: string
  mem_status :: string
  mem_media :: "string list"
  mem_day :: "day_value option"
  mem_createdAt :: string
  mem_updatedAt :: string
  mem_reactions :: "(string \<times> nat) list"

record comment =
  com_id :: string
  com_memoryId :: string
  com_user :: string
  com_text :: string
  com_createdAt :: string
  com_reactions :: "(string \<times> nat) list"

record database =
  memories :: "memory list"
  comments :: "comment list"

text \<open>
  The server's durable state: the JSON document \<open>database.json\<close> (a missing file reads
  as the empty database) and the files below the server directory, by their
  server-relative path such as \<open>/uploads/<uuid>.png\<close>.
\<close>

record server =
  db :: database
  disk :: "string set"

section \<open>Server: authentication (server.js)\<close>

text \<open>
  The session cookie state as the handlers see it: \<open>req.session.user.username\<close>,
  or nothing when no user is logged in.
\<close>

record session =
  user :: "string option"

text \<open>
  The constant response bodies of the server. The literal texts are Portuguese
  sentences; each constructor stands for one of them:
  \<^item> \<open>MissingCredentials\<close>: "Usuario e senha sao obrigatorios" (400),
  \<^item> \<open>InvalidCredentials\<close>: "Credenciais invalidas" (401),
  \<^item> \<open>Unauthorized\<close>: "Nao autorizado" (401, from \<open>requireAuth\<close>),
  \<^item> \<open>NotFound\<close>: "Memoria nao encontrada" (404),
  \<^item> \<open>AccessDenied\<close>: "Acesso negado" (403),
  \<^item> \<open>LoginOk\<close>: "Login realizado com sucesso", \<open>Deleted\<close>: "Memoria excluida".
\<close>

datatype error_text = MissingCredentials | InvalidCredentials | Unauthorized | NotFound | AccessDenied

datatype message_text = LoginOk | Deleted

text \<open>
  \<open>USERS\<close> is read from the environment: an object from user names to plain-text
  passwords. It is a parameter of the login handler; \<open>default_USERS\<close> is the
  fallback of the source.
\<close>

type_synonym users = "(string \<times> string) list"

definition default_USERS :: users where
  "default_USERS = [(''carina'', ''amore''), (''gui'', ''amoreGui''), (''admin'', ''password'')]"

text \<open>
  The body of \<open>POST /auth/login\<close>: both fields may be missing. JavaScript's \<open>!x\<close>
  holds of a missing field and of the empty string.
\<close>

record login_body =
  username :: "string option"
  password :: "string option"

definition falsy_str :: "string option \<Rightarrow> bool" where
  "falsy_str v = (case v of None \<Rightarrow> True | Some s \<Rightarrow> s = [])"

text \<open>A response: the status code with the JSON body.\<close>

datatype reply =
    ReplyError nat error_text
  | ReplyMessage nat message_text
  | ReplyMemories nat "memory list"
  | ReplyMemory nat memory

fun reply_status :: "reply \<Rightarrow> nat" where
  "reply_status (ReplyError c _) = c"
| "reply_status (ReplyMessage c _) = c"
| "reply_status (ReplyMemories c _) = c"
| "reply_status (ReplyMemory c _) = c"

definition users_lookup :: "users \<Rightarrow> string option \<Rightarrow> string option" where
  "users_lookup USERS name = (case name of None \<Rightarrow> None | Some u \<Rightarrow> map_of USERS u)"

text \<open>
  \<^verbatim>\<open>
  const { username, password } = req.body;
  if (!username || !password) return res.status(400).json({ error: ... });
  if (USERS[username] && USERS[username] === password) {
    req.session.user = { username };
    return res.json({ message: ... });
  }
  return res.status(401).json({ error: ... });
  \<close>
\<close>

definition auth_login :: "users \<Rightarrow> login_body \<Rightarrow> session \<Rightarrow> reply \<times> session" where
  "auth_login USERS b s =
     (if falsy_str (username b) \<or> falsy_str (password b)
      then (ReplyError 400 MissingCredentials, s)
      else if \<not> falsy_str (users_lookup USERS (username b))
              \<and> users_lookup USERS (username b) = password b
      then (ReplyMessage 200 LoginOk, s\<lparr>user := username b\<rparr>)
      else (ReplyError 401 InvalidCredentials, s))"

section \<open>Server: listing memories (server.js)\<close>

text \<open>
  \<open>requireAuth\<close> lets a request through when the session holds a user and answers
  401 otherwise. The query string holds each parameter as a text or not at all.
\<close>

record query =
  q_tag :: "string option"
  q_status :: "string option"
  q_q :: "string option"
  q_from :: "string option"
  q_to :: "string option"
  q_day :: "string option"

text \<open>
  \<open>if (param) { memories = memories.filter(...) }\<close>: a missing parameter and the
  empty text leave the list as it is.
\<close>

definition if_param :: "string option \<Rightarrow> (string \<Rightarrow> memory list \<Rightarrow> memory list) \<Rightarrow> memory list \<Rightarrow> memory list" where
  "if_param v f ms = (case v of None \<Rightarrow> ms | Some x \<Rightarrow> if x = [] then ms else f x ms)"

text \<open>
  \<open>new Date(a) >= new Date(b)\<close>. The parser of date texts belongs to the JavaScript
  runtime and is a parameter: it gives the time value in milliseconds, or \<open>None\<close> for
  an invalid date, which compares false with everything.
\<close>

definition date_ge :: "(string \<Rightarrow> int option) \<Rightarrow> string \<Rightarrow> string \<Rightarrow> bool" where
  "date_ge parse_date a b =
     (case parse_date a of None \<Rightarrow> False
      | Some x \<Rightarrow> (case parse_date b of None \<Rightarrow> False | Some y \<Rightarrow> y \<le> x))"

definition date_le :: "(string \<Rightarrow> int option) \<Rightarrow> string \<Rightarrow> string \<Rightarrow> bool" where
  "date_le parse_date a b =
     (case parse_date a of None \<Rightarrow> False
      | Some x \<Rightarrow> (case parse_date b of None \<Rightarrow> False | Some y \<Rightarrow> x \<le> y))"

definition day_filter :: "string option \<Rightarrow> memory list \<Rightarrow> memory list" where
  "day_filter v ms =
     (case v of None \<Rightarrow> ms
      | Some d \<Rightarrow>
          if trim d = [] then ms
          else filter (\<lambda>m. case mem_day m of None \<Rightarrow> False | Some dv \<Rightarrow> day_to_string dv = d) ms)"

text \<open>
  \<open>GET /memories\<close>, with the runtime's \<open>toLowerCase\<close> and date parser as parameters.
\<close>

definition get_memories ::
  "(string \<Rightarrow> string) \<Rightarrow> (string \<Rightarrow> int option) \<Rightarrow> session \<Rightarrow> query \<Rightarrow> server \<Rightarrow> reply" where
  "get_memories lower parse_date s qr st =
     (case user s of
        None \<Rightarrow> ReplyError 401 Unauthorized
      | Some _ \<Rightarrow>
          (let ms0 = memories (db st);
               ms1 = if_param (q_tag qr)
                       (\<lambda>tag. filter (\<lambda>m. list_ex (\<lambda>t. lower t = lower tag) (mem_tags m))) ms0;
               ms2 = if_param (q_status qr) (\<lambda>status. filter (\<lambda>m. mem_status m = status)) ms1;
               ms3 = day_filter (q_day qr) ms2;
               ms4 = if_param (q_from qr) (\<lambda>from. filter (\<lambda>m. date_ge parse_date (mem_date m) from)) ms3;
               ms5 = if_param (q_to qr) (\<lambda>to. filter (\<lambda>m. date_le parse_date (mem_date m) to)) ms4;
               ms6 = if_param (q_q qr)
                       (\<lambda>q. filter (\<lambda>m.
                          (mem_title m \<noteq> [] \<and> str_includes (lower (mem_title m)) (lower q))
                          \<or> (mem_text m \<noteq> [] \<and> str_includes (lower (mem_text m)) (lower q)))) ms5
           in ReplyMemories 200 ms6))"

text \<open>
  The filter in the words of the interface. A parameter is supplied when it is present
  and not empty. A memory's date lies within a bound when both date texts are valid
  dates and the memory's time value is not before \<open>from\<close>, respectively not after
  \<open>to\<close>; equal time values are within the bound.
\<close>

definition is_supplied :: "string option \<Rightarrow> bool" where
  "is_supplied v = (case v of None \<Rightarrow> False | Some x \<Rightarrow> x \<noteq> [])"

definition param_text :: "string option \<Rightarrow> string" where
  "param_text v = (case v of None \<Rightarrow> [] | Some x \<Rightarrow> x)"

definition not_before :: "(string \<Rightarrow> int option) \<Rightarrow> string \<Rightarrow> string \<Rightarrow> bool" where
  "not_before parse_date date_text bound_text =
     (case (parse_date date_text, parse_date bound_text) of
        (Some t, Some lo) \<Rightarrow> lo < t \<or> t = lo
      | _ \<Rightarrow> False)"

definition not_after :: "(string \<Rightarrow> int option) \<Rightarrow> string \<Rightarrow> string \<Rightarrow> bool" where
  "not_after parse_date date_text bound_text =
     (case (parse_date date_text, parse_date bound_text) of
        (Some t, Some hi) \<Rightarrow> t < hi \<or> t = hi
      | _ \<Rightarrow> False)"

definition is_blank :: "string \<Rightarrow> bool" where
  "is_blank d = (trim d = [])"

text \<open>The five filters that the interface lists.\<close>

definition satisfies_listed_filters ::
  "(string \<Rightarrow> string) \<Rightarrow> (string \<Rightarrow> int option) \<Rightarrow> query \<Rightarrow> memory \<Rightarrow> bool" where
  "satisfies_listed_filters lower parse_date qr m =
     ((is_supplied (q_q qr) \<longrightarrow>
         str_includes (lower (mem_title m)) (lower (param_text (q_q qr)))
         \<or> str_includes (lower (mem_text m)) (lower (param_text (q_q qr))))
      \<and> (is_supplied (q_status qr) \<longrightarrow> mem_status m = param_text (q_status qr))
      \<and> (is_supplied (q_from qr) \<longrightarrow> not_before parse_date (mem_date m) (param_text (q_from qr)))
      \<and> (is_supplied (q_to qr) \<longrightarrow> not_after parse_date (mem_date m) (param_text (q_to qr)))
      \<and> (q_day qr \<noteq> None \<and> \<not> is_blank (param_text (q_day qr)) \<longrightarrow>
           (case mem_day m of None \<Rightarrow> False | Some dv \<Rightarrow> day_to_string dv = param_text (q_day qr))))"

text \<open>The sixth filter of the handler: some tag of the memory is the \<open>tag\<close> parameter, up to case.\<close>

definition satisfies_tag_filter :: "(string \<Rightarrow> string) \<Rightarrow> query \<Rightarrow> memory \<Rightarrow> bool" where
  "satisfies_tag_filter lower qr m =
     (is_supplied (q_tag qr) \<longrightarrow> (\<exists>t \<in> set (mem_tags m). lower t = lower (param_text (q_tag qr))))"

section \<open>Server: updating and deleting a memory (server.js)\<close>

text \<open>
  The body fields of \<open>PUT /memories/:id\<close>; \<open>None\<close> is \<open>undefined\<close>. The \<open>files\<close>
  are the names under which the upload middleware has stored the request's media.
\<close>

datatype tags_input = TagsArray "string list" | TagsText string

datatype body_day = DayNull | DayText string

record memory_body =
  b_title :: "string option"
  b_text :: "string option"
  b_date :: "string option"
  b_tags :: "tags_input option"
  b_location :: "string option"
  b_status :: "string option"
  b_day :: "body_day option"

definition parse_tags :: "tags_input \<Rightarrow> string list" where
  "parse_tags t =
     (case t of TagsArray ts \<Rightarrow> ts
      | TagsText s \<Rightarrow> filter (\<lambda>p. p \<noteq> []) (map trim (split_on CHR '','' s)))"

text \<open>\<open>isNaN(Number(day)) ? String(day) : Number(day)\<close>, with the runtime's conversion.\<close>

definition parse_day :: "(string \<Rightarrow> string option) \<Rightarrow> string \<Rightarrow> day_value" where
  "parse_day to_number d = (case to_number d of None \<Rightarrow> DayStr d | Some n \<Rightarrow> DayNum n)"

fun findIndex :: "('a \<Rightarrow> bool) \<Rightarrow> 'a list \<Rightarrow> nat option" where
  "findIndex P [] = None"
| "findIndex P (x # xs) = (if P x then Some 0 else map_option Suc (findIndex P xs))"

definition set_if :: "'a option \<Rightarrow> ('a \<Rightarrow> memory \<Rightarrow> memory) \<Rightarrow> memory \<Rightarrow> memory" where
  "set_if v f mem = (case v of None \<Rightarrow> mem | Some x \<Rightarrow> f x mem)"

definition update_fields ::
  "(string \<Rightarrow> string option) \<Rightarrow> string \<Rightarrow> memory_body \<Rightarrow> string list \<Rightarrow> memory \<Rightarrow> memory" where
  "update_fields to_number now b files mem =
     (let m1 = set_if (b_title b) (\<lambda>v m. m\<lparr>mem_title := v\<rparr>) mem;
          m2 = set_if (b_text b) (\<lambda>v m. m\<lparr>mem_text := v\<rparr>) m1;
          m3 = set_if (b_date b) (\<lambda>v m. m\<lparr>mem_date := v\<rparr>) m2;
          m4 = set_if (b_tags b) (\<lambda>v m. m\<lparr>mem_tags := parse_tags v\<rparr>) m3;
          m5 = set_if (b_location b) (\<lambda>v m. m\<lparr>mem_location := v\<rparr>) m4;
          m6 = set_if (b_status b) (\<lambda>v m. m\<lparr>mem_status := v\<rparr>) m5;
          m7 = set_if (b_day b)
                 (\<lambda>v m. case v of
                      DayNull \<Rightarrow> m\<lparr>mem_day := None\<rparr>
                    | DayText d \<Rightarrow> if trim d = [] then m\<lparr>mem_day := None\<rparr>
                                   else m\<lparr>mem_day := Some (parse_day to_number d)\<rparr>) m6;
          m8 = (if files \<noteq> [] then m7\<lparr>mem_media := mem_media m7 @ map (\<lambda>f. ''/uploads/'' @ f) files\<rparr> else m7)
      in m8\<lparr>mem_updatedAt := now\<rparr>)"

definition put_memory ::
  "(string \<Rightarrow> string option) \<Rightarrow> string \<Rightarrow> session \<Rightarrow> string \<Rightarrow> memory_body \<Rightarrow> string list \<Rightarrow> server
     \<Rightarrow> reply \<times> server" where
  "put_memory to_number now s rid b files st =
     (case user s of
        None \<Rightarrow> (ReplyError 401 Unauthorized, st)
      | Some u \<Rightarrow>
          (case findIndex (\<lambda>m. mem_id m = rid) (memories (db st)) of
             None \<Rightarrow> (ReplyError 404 NotFound, st)
           | Some idx \<Rightarrow>
               (let mem = memories (db st) ! idx in
                if mem_user mem \<noteq> u then (ReplyError 403 AccessDenied, st)
                else
                  (let mem' = update_fields to_number now b files mem
                   in (ReplyMemory 200 mem',
                       st\<lparr>db := (db st)\<lparr>memories := (memories (db st))[idx := mem']\<rparr>\<rparr>)))))"

definition delete_memory :: "session \<Rightarrow> string \<Rightarrow> server \<Rightarrow> reply \<times> server" where
  "delete_memory s rid st =
     (case user s of
        None \<Rightarrow> (ReplyError 401 Unauthorized, st)
      | Some u \<Rightarrow>
          (case findIndex (\<lambda>m. mem_id m = rid) (memories (db st)) of
             None \<Rightarrow> (ReplyError 404 NotFound, st)
           | Some idx \<Rightarrow>
               (let mem = memories (db st) ! idx in
                if mem_user mem \<noteq> u then (ReplyError 403 AccessDenied, st)
                else
                  (ReplyMessage 200 Deleted,
                   \<lparr>db = \<lparr>memories = take idx (memories (db st)) @ drop (Suc idx) (memories (db st)),
                           comments = filter (\<lambda>c. com_memoryId c \<noteq> mem_id mem) (comments (db st))\<rparr>,
                    disk = disk st - set (mem_media mem)\<rparr>))))"

section \<open>Client: numbers, stored item states (script.js)\<close>

text \<open>
  A day id is the result of \<open>parseInt(card.dataset.day, 10)\<close>: an integer or NaN.
  \<open>parseInt\<close> skips leading white space, reads an optional sign and the longest run
  of decimal digits, and ignores what follows; with no digit the result is NaN. The
  integer is kept exactly; the runtime's number is the double next to it, which is the
  same number up to 2^53.
\<close>

datatype js_num = NaN | Num int

definition parseInt :: "string option \<Rightarrow> js_num" where
  "parseInt v =
     (case v of
        None \<Rightarrow> NaN
      | Some s \<Rightarrow>
          (let t = strip_leading s;
               neg = (t \<noteq> [] \<and> hd t = CHR ''-'');
               r = (if t \<noteq> [] \<and> (hd t = CHR ''-'' \<or> hd t = CHR ''+'') then tl t else t);
               ds = takeWhile is_digit r
           in if ds = [] then NaN
              else Num (if neg then - int (digits_to_nat ds) else int (digits_to_nat ds))))"

definition num_to_string :: "js_num \<Rightarrow> string" where
  "num_to_string n = (case n of NaN \<Rightarrow> ''NaN'' | Num i \<Rightarrow> int_to_string i)"

text \<open>
  The values \<open>JSON.parse\<close> produces. Numbers are restricted to integers: the
  program only tests a value for truthiness and reads its \<open>completed\<close> and \<open>note\<close>
  properties.
\<close>

datatype json = JNull | JBool bool | JNum int | JStr string | JArr "json list" | JObj "(string \<times> json) list"

fun truthy :: "json \<Rightarrow> bool" where
  "truthy JNull = False"
| "truthy (JBool b) = b"
| "truthy (JNum n) = (n \<noteq> 0)"
| "truthy (JStr s) = (s \<noteq> [])"
| "truthy (JArr _) = True"
| "truthy (JObj _) = True"

text \<open>\<open>v.name\<close> for a value that is not null: \<open>None\<close> is \<open>undefined\<close>.\<close>

fun get_prop :: "json \<Rightarrow> string \<Rightarrow> json option" where
  "get_prop (JObj kvs) name = map_of kvs name"
| "get_prop _ name = None"

definition truthy_prop :: "json \<Rightarrow> string \<Rightarrow> bool" where
  "truthy_prop v name = (case get_prop v name of None \<Rightarrow> False | Some x \<Rightarrow> truthy x)"

text \<open>
  \<open>v.name = x\<close> and \<open>delete v.name\<close>. On a primitive value the assignment has no
  effect; a property put on an array is not serialised by \<open>JSON.stringify\<close>, so the
  array is left as it is as well.
\<close>

fun set_prop :: "json \<Rightarrow> string \<Rightarrow> json \<Rightarrow> json" where
  "set_prop (JObj kvs) name x = JObj (AList.update name x kvs)"
| "set_prop v name x = v"

fun delete_prop :: "json \<Rightarrow> string \<Rightarrow> json" where
  "delete_prop (JObj kvs) name = JObj (AList.delete name kvs)"
| "delete_prop v name = v"

text \<open>
  The durable client storage. The key \<open>lastDay\<close> holds a plain text and is kept
  apart; every other key is held with the outcome of \<open>JSON.parse\<close> on its text:
  \<open>Malformed\<close> when parsing throws. Writing \<open>JSON.stringify(saved)\<close> stores
  \<open>Json saved\<close>. The list is in the order of \<open>localStorage.key(i)\<close>.
\<close>

datatype item_text = Malformed | Json json

type_synonym items = "(string \<times> item_text) list"

definition setItem :: "string \<Rightarrow> item_text \<Rightarrow> items \<Rightarrow> items" where
  "setItem key v ls = AList.update key v ls"

definition removeItem :: "string \<Rightarrow> items \<Rightarrow> items" where
  "removeItem key ls = AList.delete key ls"

text \<open>\<open>JSON.parse(localStorage.getItem(key))\<close>: a missing key reads as null.\<close>

definition parse_item :: "items \<Rightarrow> string \<Rightarrow> item_text" where
  "parse_item ls key = (case map_of ls key of None \<Rightarrow> Json JNull | Some t \<Rightarrow> t)"

definition item_key :: "js_num \<Rightarrow> nat \<Rightarrow> string" where
  "item_key dayId index = ''day-'' @ num_to_string dayId @ ''-item-'' @ nat_to_string index"

text \<open>
  \<^verbatim>\<open>
  try { saved = JSON.parse(localStorage.getItem(itemKey)) || {}; } catch (e) { saved = {}; }
  \<close>
\<close>

definition read_saved :: "items \<Rightarrow> string \<Rightarrow> json" where
  "read_saved ls key =
     (case parse_item ls key of Malformed \<Rightarrow> JObj [] | Json v \<Rightarrow> if truthy v then v else JObj [])"

text \<open>\<open>data && data.completed\<close> inside \<open>try\<close>, in \<open>updateDayProgress\<close>.\<close>

definition is_completed :: "item_text \<Rightarrow> bool" where
  "is_completed t = (case t of Malformed \<Rightarrow> False | Json data \<Rightarrow> truthy data \<and> truthy_prop data ''completed'')"

definition completed_count :: "items \<Rightarrow> js_num \<Rightarrow> nat \<Rightarrow> nat" where
  "completed_count ls dayId ntotal =
     length (filter (\<lambda>i. is_completed (parse_item ls (item_key dayId i))) [0..<ntotal])"

text \<open>The check mark U+2713, as its UTF-8 bytes.\<close>

definition check_mark :: string where
  "check_mark = [char_of (226::nat), char_of (156::nat), char_of (147::nat)]"

definition baseLabel :: "js_num \<Rightarrow> string" where
  "baseLabel dayId = ''Dia '' @ num_to_string dayId"

definition progress_label :: "js_num \<Rightarrow> nat \<Rightarrow> nat \<Rightarrow> string" where
  "progress_label dayId ntotal completed =
     (if ntotal > 0 then
        (if completed = ntotal then baseLabel dayId @ '' '' @ check_mark
         else baseLabel dayId @ '' ('' @ nat_to_string completed @ ''/'' @ nat_to_string ntotal @ '')'')
      else baseLabel dayId)"

text \<open>
  The diary entries that \<open>updateDiary\<close> collects: the keys that start with \<open>day-\<close>,
  whose value parses to a truthy value with a truthy \<open>note\<close>, and that match
  \<open>/^day-(\d+)-item-(\d+)$/\<close>; sorted by day, keeping the storage order within a day.
\<close>

definition match_item_key :: "string \<Rightarrow> (nat \<times> nat) option" where
  "match_item_key key =
     (if prefix ''day-'' key then
        (let r = drop 4 key; d = takeWhile is_digit r; r2 = dropWhile is_digit r
         in if d \<noteq> [] \<and> prefix ''-item-'' r2 then
              (let i = drop 6 r2
               in if i \<noteq> [] \<and> list_all is_digit i then Some (digits_to_nat d, digits_to_nat i) else None)
            else None)
      else None)"

type_synonym diary_entry = "nat \<times> json"

definition entry_of :: "string \<times> item_text \<Rightarrow> diary_entry option" where
  "entry_of kv =
     (case kv of (key, t) \<Rightarrow>
        if \<not> prefix ''day-'' key then None
        else (case t of
                Malformed \<Rightarrow> None
              | Json data \<Rightarrow>
                  if truthy data \<and> truthy_prop data ''note'' then
                    (case match_item_key key of
                       None \<Rightarrow> None
                     | Some (d, i) \<Rightarrow> map_option (\<lambda>n. (d, n)) (get_prop data ''note''))
                  else None))"

definition diary_entries :: "items \<Rightarrow> diary_entry list" where
  "diary_entries ls = sort_key fst (List.map_filter entry_of ls)"

section \<open>Client: the itinerary extractor (script.js)\<close>

record schedule_item =
  time :: string
  html :: string
  transport :: "string option"

record day_record =
  day_id :: js_num
  title :: string
  subtitle :: string
  highlight :: "string option"
  schedule :: "schedule_item list"

text \<open>
  The source markup. A schedule row (\<open>li\<close>) is the sequence of its nodes, each an
  element of class \<open>time\<close>, an element of class \<open>transport\<close> or other markup, with
  its serialisations. A day card holds its \<open>data-day\<close> attribute, the inner markup of
  its first \<open>.day-title\<close>, \<open>.day-sub\<close> and \<open>.highlight\<close> elements when present,
  and its rows.
\<close>

datatype node_kind = TimeNode | TransportNode | OtherNode

record dom_node =
  kind :: node_kind
  outerHTML :: string
  innerHTML :: string
  textContent :: string

type_synonym li_element = "dom_node list"

record day_card =
  dataset_day :: "string option"
  titleEl :: "string option"
  subEl :: "string option"
  highlightEl :: "string option"
  scheduleItems :: "li_element list"

definition querySelector :: "node_kind \<Rightarrow> li_element \<Rightarrow> dom_node option" where
  "querySelector k li = find (\<lambda>n. kind n = k) li"

fun remove_first :: "('a \<Rightarrow> bool) \<Rightarrow> 'a list \<Rightarrow> 'a list" where
  "remove_first P [] = []"
| "remove_first P (x # xs) = (if P x then xs else x # remove_first P xs)"

definition parse_li :: "li_element \<Rightarrow> schedule_item" where
  "parse_li li =
     (let timeEl = querySelector TimeNode li;
          time_text = (case timeEl of Some e \<Rightarrow> trim (textContent e) | None \<Rightarrow> []);
          transportEl = querySelector TransportNode li;
          transport_html = (case transportEl of Some e \<Rightarrow> Some (trim (innerHTML e)) | None \<Rightarrow> None);
          clone = remove_first (\<lambda>n. kind n = TransportNode) (remove_first (\<lambda>n. kind n = TimeNode) li);
          descriptionHtml = trim (concat (map outerHTML clone))
      in \<lparr>time = time_text, html = descriptionHtml, transport = transport_html\<rparr>)"

definition parse_card :: "day_card \<Rightarrow> day_record" where
  "parse_card c =
     \<lparr>day_id = parseInt (dataset_day c),
      title = (case titleEl c of Some t \<Rightarrow> trim t | None \<Rightarrow> []),
      subtitle = (case subEl c of Some t \<Rightarrow> trim t | None \<Rightarrow> []),
      highlight = (case highlightEl c of Some t \<Rightarrow> Some (trim t) | None \<Rightarrow> None),
      schedule = map parse_li (scheduleItems c)\<rparr>"

section \<open>Client: the page state (script.js)\<close>

record tab =
  tab_elem_id :: string
  aria_selected :: bool
  tabindex :: int
  tab_active :: bool
  tab_text :: string

text \<open>
  One row of a built day panel: what is rendered, the \<open>completed\<close> class of the
  row, the note shown, and the \<open>saved\<close> object that the row's handlers close over.
\<close>

record item_view =
  iv_time :: "string option"
  iv_html :: string
  iv_transport :: "string option"
  iv_completed :: bool
  iv_note :: "json option"
  iv_saved :: json

text \<open>
  A day panel. \<open>prevBtn\<close> and \<open>nextBtn\<close> hold the view id that the button opens,
  when the button exists.
\<close>

record day_panel =
  dp_day :: js_num
  dp_title :: string
  dp_subtitle :: string
  dp_highlight :: "string option"
  dp_items :: "item_view list"
  prevBtn :: "string option"
  nextBtn :: "string option"

text \<open>The diary panel counts its "no notes yet" messages.\<close>

datatype panel_body = DiaryBody nat | MemoriesBody | DayBody day_panel

record panel =
  panel_elem_id :: string
  panel_body :: panel_body
  panel_active :: bool
  panel_hidden :: bool

record diary_section =
  ds_hidden :: bool
  ds_card :: bool
  ds_list :: "diary_entry list option"

text \<open>
  The state of the page:
  \<^item> \<open>day_cards\<close>: the \<open>.day-card\<close> elements still in the document;
  \<^item> \<open>diary_el\<close>: the \<open>#diary\<close> section of the page, if it has one (it is also what
    \<open>window.diarySection\<close> refers to), with \<open>ds_list\<close> the content of its
    \<open>#diary-list\<close> child if there is one; \<open>diary_attached\<close>: the section is in the
    document, so that \<open>getElementById('diary')\<close> finds it;
  \<^item> \<open>tab_list\<close>: the tabs of the \<open>#tab-list\<close> element, \<open>None\<close> without that
    element; \<open>panels_container\<close>: the \<open>#tab-panels\<close> element exists;
  \<^item> \<open>tabPanels\<close>: \<open>window.tabPanels\<close>, \<open>None\<close> while undefined;
  \<^item> \<open>itineraryData\<close>: \<open>window.itineraryData\<close>;
  \<^item> \<open>lastDay\<close>, \<open>items\<close>: the durable storage;
  \<^item> \<open>location_dia\<close>: the value of the \<open>dia\<close> parameter of the page address;
  \<^item> \<open>focus\<close>: the element id of the focused tab;
  \<^item> \<open>li_count\<close>: the browser's reading of a markup fragment assigned to
    \<open>innerHTML\<close>, as far as the program sees it: the number of \<open>li\<close> elements in it.
\<close>

record page =
  day_cards :: "day_card list"
  diary_el :: "diary_section option"
  diary_attached :: bool
  tab_list :: "tab list option"
  panels_container :: bool
  tabPanels :: "(string \<times> panel) list option"
  itineraryData :: "day_record list"
  lastDay :: "string option"
  items :: items
  location_dia :: "string option"
  focus :: "string option"
  li_count :: "string \<Rightarrow> nat"

datatype js_error = TypeError

text \<open>
  \<open>parseItinerary()\<close>: the cards found by \<open>querySelectorAll('.day-card')\<close> are
  visited in document order; each visit appends one record to \<open>data\<close> and removes
  the card from the document.
\<close>

definition parseItinerary :: "page \<Rightarrow> day_record list \<times> page" where
  "parseItinerary pg =
     foldl (\<lambda>(data, p) c. (data @ [parse_card c], p\<lparr>day_cards := remove1 c (day_cards p)\<rparr>))
           ([], pg) (day_cards pg)"

section \<open>Client: progress label of a day tab (script.js)\<close>

definition find_day :: "day_record list \<Rightarrow> string \<Rightarrow> day_record option" where
  "find_day ds id_text = find (\<lambda>d. num_to_string (day_id d) = id_text) ds"

text \<open>\<open>document.getElementById(eid).textContent = txt\<close>: the first element with the id.\<close>

fun set_first_text :: "string \<Rightarrow> string \<Rightarrow> tab list \<Rightarrow> tab list" where
  "set_first_text eid txt [] = []"
| "set_first_text eid txt (t # ts) =
     (if tab_elem_id t = eid then t\<lparr>tab_text := txt\<rparr> # ts else t # set_first_text eid txt ts)"

definition updateDayProgress :: "js_num \<Rightarrow> page \<Rightarrow> page" where
  "updateDayProgress dayId pg =
     (case find_day (itineraryData pg) (num_to_string dayId) of
        None \<Rightarrow> pg
      | Some day \<Rightarrow>
          (let ntotal = length (schedule day);
               completed = completed_count (items pg) dayId ntotal
           in case tab_list pg of
                None \<Rightarrow> pg
              | Some tabs \<Rightarrow>
                  pg\<lparr>tab_list := Some (set_first_text (''tab-'' @ num_to_string dayId)
                                          (progress_label dayId ntotal completed) tabs)\<rparr>))"

section \<open>Client: building panels (script.js)\<close>

text \<open>Comparison of a day id with a number: false for NaN.\<close>

definition num_gt :: "js_num \<Rightarrow> int \<Rightarrow> bool" where
  "num_gt a b = (case a of NaN \<Rightarrow> False | Num i \<Rightarrow> b < i)"

definition num_lt :: "js_num \<Rightarrow> int \<Rightarrow> bool" where
  "num_lt a b = (case a of NaN \<Rightarrow> False | Num i \<Rightarrow> i < b)"

definition num_add :: "js_num \<Rightarrow> int \<Rightarrow> js_num" where
  "num_add a b = (case a of NaN \<Rightarrow> NaN | Num i \<Rightarrow> Num (i + b))"

definition new_panel :: "string \<Rightarrow> panel_body \<Rightarrow> panel" where
  "new_panel eid b = \<lparr>panel_elem_id = eid, panel_body = b, panel_active = False, panel_hidden = False\<rparr>"

text \<open>The row as \<open>createPanel\<close> renders it and \<open>initScheduleItemsForDay\<close> restores it.\<close>

definition item_view_of :: "items \<Rightarrow> js_num \<Rightarrow> nat \<Rightarrow> schedule_item \<Rightarrow> item_view" where
  "item_view_of ls dayId index item =
     (let saved = read_saved ls (item_key dayId index)
      in \<lparr>iv_time = (if time item \<noteq> [] then Some (time item) else None),
          iv_html = html item,
          iv_transport = (case transport item of None \<Rightarrow> None | Some t \<Rightarrow> if t \<noteq> [] then Some t else None),
          iv_completed = truthy_prop saved ''completed'',
          iv_note = (if truthy_prop saved ''note'' then get_prop saved ''note'' else None),
          iv_saved = saved\<rparr>)"

text \<open>
  \<open>initScheduleItemsForDay\<close> visits \<open>panel.querySelectorAll('.schedule li')\<close>: every
  \<open>li\<close> below the list in document order, numbered from 0. That is each row of the
  schedule followed by the \<open>li\<close> elements nested in its description and in its
  transport note; a nested element gets the controls and the stored state of its own
  number and has no time, description or transport of its own.
\<close>

definition nested_count :: "(string \<Rightarrow> nat) \<Rightarrow> schedule_item \<Rightarrow> nat" where
  "nested_count cnt item =
     cnt (html item) + (case transport item of None \<Rightarrow> 0 | Some t \<Rightarrow> if t \<noteq> [] then cnt t else 0)"

fun row_views :: "(string \<Rightarrow> nat) \<Rightarrow> items \<Rightarrow> js_num \<Rightarrow> nat \<Rightarrow> schedule_item list \<Rightarrow> item_view list" where
  "row_views cnt ls dayId index [] = []"
| "row_views cnt ls dayId index (item # rest) =
     item_view_of ls dayId index item
     # map (\<lambda>i. item_view_of ls dayId i \<lparr>time = [], html = [], transport = None\<rparr>)
           [Suc index ..< Suc index + nested_count cnt item]
     @ row_views cnt ls dayId (Suc index + nested_count cnt item) rest"

definition build_day_panel :: "page \<Rightarrow> day_record \<Rightarrow> day_panel" where
  "build_day_panel pg day =
     \<lparr>dp_day = day_id day,
      dp_title = title day,
      dp_subtitle = subtitle day,
      dp_highlight = (case highlight day of None \<Rightarrow> None | Some h \<Rightarrow> if h \<noteq> [] then Some h else None),
      dp_items = row_views (li_count pg) (items pg) (day_id day) 0 (schedule day),
      prevBtn = (if num_gt (day_id day) 1 then Some (num_to_string (num_add (day_id day) (- 1))) else None),
      nextBtn = (if num_lt (day_id day) (int (length (itineraryData pg)))
                 then Some (num_to_string (num_add (day_id day) 1)) else None)\<rparr>"

text \<open>
  \<open>createPanel(id)\<close>. Without the \<open>#tab-panels\<close> element nothing is built. Storing
  the panel in \<open>window.tabPanels\<close> throws while that is undefined. The requests for
  the day's memories and the set-up of the memories widget go to the network and are
  not part of the page state.
\<close>

definition createPanel :: "string \<Rightarrow> page \<Rightarrow> js_error + page" where
  "createPanel view pg =
     (if \<not> panels_container pg then Inr pg
      else if view = ''diary'' then
        (case tabPanels pg of
           None \<Rightarrow> Inl TypeError
         | Some ps \<Rightarrow>
             (let msgs = (case diary_el pg of None \<Rightarrow> 1 | Some ds \<Rightarrow> if ds_hidden ds then 1 else 0)
              in Inr (pg\<lparr>diary_el := map_option (\<lambda>ds. ds\<lparr>ds_card := False\<rparr>) (diary_el pg),
                         diary_attached := (diary_attached pg \<or> diary_el pg \<noteq> None),
                         tabPanels := Some (AList.update view (new_panel ''panel-diary'' (DiaryBody msgs)) ps)\<rparr>)))
      else if view = ''memories'' then
        (case tabPanels pg of
           None \<Rightarrow> Inl TypeError
         | Some ps \<Rightarrow> Inr (pg\<lparr>tabPanels := Some (AList.update view (new_panel ''panel-memories'' MemoriesBody) ps)\<rparr>))
      else
        (case find_day (itineraryData pg) view of
           None \<Rightarrow> Inr pg
         | Some day \<Rightarrow>
             (let p = new_panel (''panel-'' @ num_to_string (day_id day)) (DayBody (build_day_panel pg day));
                  pg1 = updateDayProgress (day_id day) pg
              in case tabPanels pg1 of
                   None \<Rightarrow> Inl TypeError
                 | Some ps \<Rightarrow> Inr (pg1\<lparr>tabPanels := Some (AList.update view p ps)\<rparr>))))"

section \<open>Client: activating a view (script.js)\<close>

text \<open>\<open>tab.id.replace(/^tab-/, '')\<close>; an empty id gives the empty text.\<close>

definition getIdFromTab :: "string \<Rightarrow> string" where
  "getIdFromTab eid = (if prefix ''tab-'' eid then drop 4 eid else eid)"

definition select_tab :: "string \<Rightarrow> tab \<Rightarrow> tab" where
  "select_tab view t =
     (let selected = (getIdFromTab (tab_elem_id t) = view)
      in t\<lparr>aria_selected := selected, tabindex := (if selected then 0 else - 1), tab_active := selected\<rparr>)"

definition show_panel :: "string \<Rightarrow> string \<times> panel \<Rightarrow> string \<times> panel" where
  "show_panel view kp =
     (case kp of (k, p) \<Rightarrow>
        if k = view then (k, p\<lparr>panel_active := True, panel_hidden := False\<rparr>)
        else (k, p\<lparr>panel_active := False, panel_hidden := True\<rparr>))"

text \<open>
  \<open>openTab(id)\<close>. \<open>tabList.querySelectorAll\<close> throws without the \<open>#tab-list\<close>
  element, and \<open>window.tabPanels[id]\<close> throws while \<open>window.tabPanels\<close> is undefined.
\<close>

definition openTab :: "string \<Rightarrow> page \<Rightarrow> js_error + page" where
  "openTab view pg =
     (case tab_list pg of
        None \<Rightarrow> Inl TypeError
      | Some tabs \<Rightarrow>
          (let pg1 = pg\<lparr>tab_list := Some (map (select_tab view) tabs)\<rparr>
           in case tabPanels pg1 of
                None \<Rightarrow> Inl TypeError
              | Some ps \<Rightarrow>
                  (case (if map_of ps view = None then createPanel view pg1 else Inr pg1) of
                     Inl e \<Rightarrow> Inl e
                   | Inr pg2 \<Rightarrow>
                       (let pg3 = pg2\<lparr>tabPanels := map_option (map (show_panel view)) (tabPanels pg2)\<rparr>;
                            pg4 = (if view \<noteq> ''diary'' \<and> view \<noteq> ''memories''
                                   then pg3\<lparr>lastDay := Some view\<rparr> else pg3)
                        in Inr (pg4\<lparr>location_dia := (if view = ''diary'' then None else Some view)\<rparr>)))))"

section \<open>Client: keyboard navigation in the tab strip (script.js)\<close>





section \<open>Client: the view opened at start (script.js)\<close>

text \<open>
  The id that \<open>restoreLastDay\<close> passes to \<open>openTab\<close>, from the \<open>dia\<close> parameter of
  the address (\<open>None\<close>: no such parameter), the stored \<open>lastDay\<close> and the itinerary.
  \<^verbatim>\<open>
  if (params.has('dia')) { id = params.get('dia'); } else { id = localStorage.getItem('lastDay'); }
  if (!id) { if (itineraryData.length > 0) { id = itineraryData[0].id.toString(); } else { id = 'diary'; } }
  \<close>
\<close>

definition restore_id :: "string option \<Rightarrow> string option \<Rightarrow> day_record list \<Rightarrow> string" where
  "restore_id param stored ds =
     (let v = (case param of Some x \<Rightarrow> Some x | None \<Rightarrow> stored)
      in if falsy_str v then (case ds of d # _ \<Rightarrow> num_to_string (day_id d) | [] \<Rightarrow> ''diary'')
         else (case v of Some x \<Rightarrow> x | None \<Rightarrow> []))"

definition restoreLastDay :: "day_record list \<Rightarrow> page \<Rightarrow> js_error + page" where
  "restoreLastDay ds pg = openTab (restore_id (location_dia pg) (lastDay pg) ds) pg"

section \<open>Client: the diary and the row handlers (script.js)\<close>

text \<open>
  \<open>updateDiary()\<close> does nothing unless both \<open>#diary\<close> and \<open>#diary-list\<close> are found
  in the document. Otherwise it renders the entries, hides the section when there is
  none, and in a built diary panel replaces the first "no notes yet" message by a new
  one when there is no entry.
\<close>

definition updateDiary :: "page \<Rightarrow> page" where
  "updateDiary pg =
     (if \<not> diary_attached pg then pg
      else case diary_el pg of
        None \<Rightarrow> pg
      | Some ds \<Rightarrow>
          (case ds_list ds of
             None \<Rightarrow> pg
           | Some _ \<Rightarrow>
               (let entries = diary_entries (items pg);
                    pg1 = pg\<lparr>diary_el := Some (ds\<lparr>ds_list := Some entries, ds_hidden := (entries = [])\<rparr>)\<rparr>
                in case tabPanels pg1 of
                     None \<Rightarrow> pg1
                   | Some ps \<Rightarrow>
                       (case map_of ps ''diary'' of
                          None \<Rightarrow> pg1
                        | Some p \<Rightarrow>
                            (case panel_body p of
                               DiaryBody msgs \<Rightarrow>
                                 pg1\<lparr>tabPanels := Some (AList.update ''diary''
                                        (p\<lparr>panel_body := DiaryBody ((msgs - 1) + (if entries = [] then 1 else 0))\<rparr>) ps)\<rparr>
                             | _ \<Rightarrow> pg1)))))"

text \<open>The row \<open>index\<close> of the built panel of view \<open>view\<close>, and writing it back.\<close>

definition get_item_view :: "page \<Rightarrow> string \<Rightarrow> nat \<Rightarrow> (js_num \<times> item_view) option" where
  "get_item_view pg view index =
     (case tabPanels pg of
        None \<Rightarrow> None
      | Some ps \<Rightarrow>
          (case map_of ps view of
             None \<Rightarrow> None
           | Some p \<Rightarrow>
               (case panel_body p of
                  DayBody dp \<Rightarrow> if index < length (dp_items dp) then Some (dp_day dp, dp_items dp ! index) else None
                | _ \<Rightarrow> None)))"

definition put_item_view :: "string \<Rightarrow> nat \<Rightarrow> item_view \<Rightarrow> page \<Rightarrow> page" where
  "put_item_view view index iv pg =
     pg\<lparr>tabPanels := map_option (map (\<lambda>(k, p).
           if k = view then
             (case panel_body p of
                DayBody dp \<Rightarrow> (k, p\<lparr>panel_body := DayBody (dp\<lparr>dp_items := (dp_items dp)[index := iv]\<rparr>)\<rparr>)
              | _ \<Rightarrow> (k, p))
           else (k, p))) (tabPanels pg)\<rparr>"

text \<open>
  The click handler of the "done" button of a row:
  \<^verbatim>\<open>
  li.classList.toggle('completed');
  saved.completed = li.classList.contains('completed');
  localStorage.setItem(itemKey, JSON.stringify(saved));
  updateDayProgress(dayId);
  \<close>
\<close>

definition done_click :: "string \<Rightarrow> nat \<Rightarrow> page \<Rightarrow> page" where
  "done_click view index pg =
     (case get_item_view pg view index of
        None \<Rightarrow> pg
      | Some (dayId, iv) \<Rightarrow>
          (let c = \<not> iv_completed iv;
               saved = set_prop (iv_saved iv) ''completed'' (JBool c);
               pg1 = put_item_view view index (iv\<lparr>iv_completed := c, iv_saved := saved\<rparr>) pg;
               pg2 = pg1\<lparr>items := setItem (item_key dayId index) (Json saved) (items pg1)\<rparr>
           in updateDayProgress dayId pg2))"

text \<open>
  The click handler of the "note" button, with the answer of \<open>prompt\<close> (\<open>None\<close>: the
  dialogue was cancelled). The note shown is the \<open>note\<close> of \<open>saved\<close> after the
  assignment; for a \<open>saved\<close> that is not an object (which only foreign storage
  content produces) the source shows the text "undefined" and the model no note.
\<close>

definition note_click :: "string \<Rightarrow> nat \<Rightarrow> string option \<Rightarrow> page \<Rightarrow> page" where
  "note_click view index answer pg =
     (case get_item_view pg view index of
        None \<Rightarrow> pg
      | Some (dayId, iv) \<Rightarrow>
          (case answer of
             None \<Rightarrow> pg
           | Some note \<Rightarrow>
               (let trimmed = trim note;
                    saved = (if trimmed = [] then delete_prop (iv_saved iv) ''note''
                             else set_prop (iv_saved iv) ''note'' (JStr trimmed));
                    shown = (if trimmed = [] then None else get_prop saved ''note'');
                    pg1 = put_item_view view index (iv\<lparr>iv_note := shown, iv_saved := saved\<rparr>) pg;
                    pg2 = pg1\<lparr>items := setItem (item_key dayId index) (Json saved) (items pg1)\<rparr>
                in updateDiary pg2)))"

section \<open>Client: building the tab strip and starting up (script.js)\<close>

definition new_tab :: "string \<Rightarrow> string \<Rightarrow> tab" where
  "new_tab eid txt = \<lparr>tab_elem_id = eid, aria_selected = False, tabindex = - 1, tab_active = False, tab_text = txt\<rparr>"

definition append_tab :: "tab \<Rightarrow> page \<Rightarrow> page" where
  "append_tab t pg = pg\<lparr>tab_list := map_option (\<lambda>ts. ts @ [t]) (tab_list pg)\<rparr>"

text \<open>The labels "Diario" and "Memorias" with their accented letters in UTF-8.\<close>

definition diary_label :: string where
  "diary_label = ''Di'' @ [char_of (195::nat), char_of (161::nat)] @ ''rio''"

definition memories_label :: string where
  "memories_label = ''Mem'' @ [char_of (195::nat), char_of (179::nat)] @ ''rias''"

text \<open>
  \<open>buildTabs(itineraryData, diarySection)\<close>, the second argument being the page's
  diary section: it returns at once without the \<open>#tab-list\<close> or the \<open>#tab-panels\<close>
  element; otherwise it empties both, publishes the itinerary and an empty panel
  registry, and appends one tab for each day (computing its progress label), the
  diary tab when the page has a diary section, and the memories tab.
\<close>

definition buildTabs :: "day_record list \<Rightarrow> page \<Rightarrow> page" where
  "buildTabs ds pg =
     (case tab_list pg of
        None \<Rightarrow> pg
      | Some _ \<Rightarrow>
          if \<not> panels_container pg then pg
          else
            (let pg1 = pg\<lparr>tab_list := Some [], tabPanels := Some [], itineraryData := ds\<rparr>;
                 pg2 = foldl (\<lambda>p day.
                          updateDayProgress (day_id day)
                            (append_tab (new_tab (''tab-'' @ num_to_string (day_id day)) (baseLabel (day_id day))) p))
                        pg1 ds;
                 pg3 = (if diary_el pg2 \<noteq> None then append_tab (new_tab ''tab-diary'' diary_label) pg2 else pg2)
             in append_tab (new_tab ''tab-memories'' memories_label) pg3))"

text \<open>
  The \<open>DOMContentLoaded\<close> handler, without the countdown, the theme, the back-to-top
  button and the service worker: extract the itinerary, take the diary section that
  \<open>getElementById('diary')\<close> finds out of the document, update the diary, build the
  tabs, open the start view.
\<close>

definition domContentLoaded :: "page \<Rightarrow> js_error + page" where
  "domContentLoaded pg =
     (case parseItinerary pg of
        (data, pg1) \<Rightarrow>
          (let pg2 = pg1\<lparr>diary_el := (if diary_attached pg1 then diary_el pg1 else None),
                           diary_attached := False\<rparr>;
               pg3 = updateDiary pg2;
               pg4 = buildTabs data pg3
           in restoreLastDay data pg4))"

section \<open>Observations used in the statements\<close>



text \<open>\<open>document.getElementById(eid).textContent\<close> for a tab.\<close>

definition tab_text_of :: "page \<Rightarrow> string \<Rightarrow> string option" where
  "tab_text_of pg eid =
     (case tab_list pg of None \<Rightarrow> None
      | Some ts \<Rightarrow> map_option tab_text (find (\<lambda>t. tab_elem_id t = eid) ts))"

text \<open>The content of the panel registered for a view, \<open>window.tabPanels[view]\<close>.\<close>

definition panel_of :: "page \<Rightarrow> string \<Rightarrow> panel_body option" where
  "panel_of pg view =
     (case tabPanels pg of None \<Rightarrow> None | Some ps \<Rightarrow> map_option panel_body (map_of ps view))"

definition has_day :: "day_record list \<Rightarrow> js_num \<Rightarrow> bool" where
  "has_day ds n = list_ex (\<lambda>d. day_id d = n) ds"

section \<open>Example data\<close>

definition example_days :: "day_record list" where
  "example_days =
     [\<lparr>day_id = Num 1, title = ''Chegada'', subtitle = [], highlight = None,
        schedule = [\<lparr>time = ''9h'', html = ''Cafe'', transport = None\<rparr>,
                    \<lparr>time = [], html = ''Praia'', transport = Some ''Taxi''\<rparr>]\<rparr>,
      \<lparr>day_id = Num 2, title = ''Passeio'', subtitle = ''Centro'', highlight = Some ''Museu'', schedule = []\<rparr>,
      \<lparr>day_id = Num 3, title = ''Serra'', subtitle = [], highlight = None, schedule = []\<rparr>,
      \<lparr>day_id = Num 4, title = ''Volta'', subtitle = [], highlight = None, schedule = []\<rparr>]"

definition example_tabs :: "tab list" where
  "example_tabs =
     [new_tab ''tab-1'' ''Dia 1'', new_tab ''tab-2'' ''Dia 2'', new_tab ''tab-3'' ''Dia 3'',
      new_tab ''tab-4'' ''Dia 4'', (new_tab ''tab-memories'' memories_label)\<lparr>aria_selected := True\<rparr>]"


text \<open>
  A page after \<open>buildTabs\<close> for four days, with an empty \<open>dia\<close> parameter in its
  address and day 3 stored as the last day. The markup of the examples has no nested
  \<open>li\<close> element.
\<close>

definition example_page :: page where
  "example_page =
     \<lparr>day_cards = [], diary_el = None, diary_attached = False,
      tab_list = Some example_tabs,
      panels_container = True, tabPanels = Some [], itineraryData = example_days,
      lastDay = Some ''3'', items = [], location_dia = Some [], focus = None, li_count = (\<lambda>_. 0)\<rparr>"

definition gap_days :: "day_record list" where
  "gap_days =
     [\<lparr>day_id = Num 1, title = ''Chegada'', subtitle = [], highlight = None, schedule = []\<rparr>,
      \<lparr>day_id = Num 3, title = ''Serra'', subtitle = [], highlight = None, schedule = []\<rparr>]"

definition example_items :: items where
  "example_items =
     [(''day-1-item-0'', Json (JObj [(''completed'', JBool True)])),
      (''theme'', Malformed),
      (''day-1-item-1'', Json (JObj [(''completed'', JBool False), (''note'', JStr ''sol'')]))]"

definition progress_page :: page where
  "progress_page = example_page\<lparr>items := example_items\<rparr>"

text \<open>The page after day 1 has been opened on \<open>progress_page\<close>.\<close>

definition day1_open :: page where
  "day1_open = (case openTab ''1'' progress_page of Inr pg \<Rightarrow> pg | Inl _ \<Rightarrow> progress_page)"

definition example_cards :: "day_card list" where
  "example_cards =
     [\<lparr>dataset_day = Some (nat_to_string 1), titleEl = Some '' Chegada '', subEl = None, highlightEl = None,
        scheduleItems =
          [ [\<lparr>kind = TimeNode, outerHTML = ''<span class=time> 9h </span>'', innerHTML = '' 9h '', textContent = '' 9h ''\<rparr>,
            \<lparr>kind = OtherNode, outerHTML = '' Cafe '', innerHTML = [], textContent = '' Cafe ''\<rparr>],
           [\<lparr>kind = OtherNode, outerHTML = ''Praia'', innerHTML = [], textContent = ''Praia''\<rparr>]]\<rparr>,
      \<lparr>dataset_day = Some (nat_to_string 2), titleEl = Some ''Passeio'', subEl = Some ''Centro'',
        highlightEl = Some '' Museu '', scheduleItems = []\<rparr>]"

definition example_document :: page where
  "example_document = example_page\<lparr>day_cards := example_cards, tab_list := Some [], itineraryData := []\<rparr>"

definition example_memory :: memory where
  "example_memory =
     \<lparr>mem_id = ''a1'', mem_user = ''gui'', mem_title = ''Praia do Rosa'', mem_text = ''Dia de sol'',
      mem_date = ''2024-01-10'', mem_tags = [''mar''], mem_location = [], mem_status = ''public'',
      mem_media = [''/uploads/f1.png''], mem_day = Some (DayNum ''2''),
      mem_createdAt = ''2024-01-10'', mem_updatedAt = ''2024-01-10'', mem_reactions = []\<rparr>"

definition example_server :: server where
  "example_server =
     \<lparr>db = \<lparr>memories =
               [example_memory,
                example_memory\<lparr>mem_id := ''b2'', mem_user := ''carina'', mem_title := ''Jantar'',
                                mem_text := ''na PRAIA'', mem_date := ''2024-01-12'', mem_tags := [], mem_status := ''draft'',
                                mem_media := [], mem_day := None\<rparr>,
                example_memory\<lparr>mem_id := ''c3'', mem_title := ''Museu'', mem_text := [], mem_date := ''2024-01-05'',
                                mem_media := []\<rparr>],
             comments = []\<rparr>,
      disk = {''/uploads/f1.png''}\<rparr>"

text \<open>
  The date parser on the date texts of the examples: \<open>new Date('2024-01-10')\<close> is
  midnight UTC of that day, in milliseconds since 1970.
\<close>

definition example_dates :: "string \<Rightarrow> int option" where
  "example_dates = map_of
     [(''2024-01-05'', 1704412800000), (''2024-01-10'', 1704844800000), (''2024-01-12'', 1705017600000)]"

definition no_params :: query where
  "no_params = \<lparr>q_tag = None, q_status = None, q_q = None, q_from = None, q_to = None, q_day = None\<rparr>"

definition no_fields :: memory_body where
  "no_fields = \<lparr>b_title = None, b_text = None, b_date = None, b_tags = None, b_location = None,
                 b_status = None, b_day = None\<rparr>"

section \<open>Auxiliary lemmas\<close>

lemma if_param_filter:
  "if_param v (\<lambda>x. filter (P x)) ms = filter (\<lambda>m. is_supplied v \<longrightarrow> P (param_text v) m) ms"
  by (auto simp: if_param_def is_supplied_def param_text_def split: option.splits)

lemma day_filter_filter:
  "day_filter v ms = filter (\<lambda>m. v \<noteq> None \<and> \<not> is_blank (param_text v) \<longrightarrow>
       (case mem_day m of None \<Rightarrow> False | Some dv \<Rightarrow> day_to_string dv = param_text v)) ms"
  by (auto simp: day_filter_def is_blank_def param_text_def split: option.splits)

lemma date_ge_not_before: "date_ge parse_date a b = not_before parse_date a b"
  by (auto simp: date_ge_def not_before_def split: option.splits)

lemma date_le_not_after: "date_le parse_date a b = not_after parse_date a b"
  by (auto simp: date_le_def not_after_def split: option.splits)

lemma title_guard:
  assumes "\<And>x. (lower x = []) = (x = [])" and "q \<noteq> []"
  shows "(t \<noteq> [] \<and> str_includes (lower t) (lower q)) = str_includes (lower t) (lower q)"
proof (cases "t = []")
  case True
  with assms have "lower t = []" "lower q \<noteq> []" by simp_all
  then show ?thesis using True by simp
next
  case False
  then show ?thesis by simp
qed

lemma findIndex_distinct:
  "m \<in> set ms \<Longrightarrow> distinct (map f ms) \<Longrightarrow>
     \<exists>i. findIndex (\<lambda>x. f x = f m) ms = Some i \<and> ms ! i = m"
proof (induction ms)
  case Nil
  then show ?case by simp
next
  case (Cons a ms)
  show ?case
  proof (cases "a = m")
    case True
    then show ?thesis by simp
  next
    case False
    with Cons.prems have in_tl: "m \<in> set ms" and d: "distinct (map f ms)" and "f a \<noteq> f m"
      by auto
    from Cons.IH [OF in_tl d] obtain i where "findIndex (\<lambda>x. f x = f m) ms = Some i" "ms ! i = m"
      by blast
    with \<open>f a \<noteq> f m\<close> show ?thesis by simp
  qed
qed

lemma set_first_text_ids: "map tab_elem_id (set_first_text eid txt ts) = map tab_elem_id ts"
  by (induction ts) auto

lemma set_first_text_selected: "map aria_selected (set_first_text eid txt ts) = map aria_selected ts"
  by (induction ts) auto

lemma set_first_text_length: "length (set_first_text eid txt ts) = length ts"
  by (induction ts) auto

lemma updateDayProgress_frame:
  "tabPanels (updateDayProgress d pg) = tabPanels pg"
  "lastDay (updateDayProgress d pg) = lastDay pg"
  "location_dia (updateDayProgress d pg) = location_dia pg"
  "focus (updateDayProgress d pg) = focus pg"
  "items (updateDayProgress d pg) = items pg"
  "itineraryData (updateDayProgress d pg) = itineraryData pg"
  by (simp_all add: updateDayProgress_def Let_def split: option.splits)

lemma updateDayProgress_tabs:
  "tab_list pg = Some ts \<Longrightarrow>
     \<exists>ts'. tab_list (updateDayProgress d pg) = Some ts'
         \<and> map tab_elem_id ts' = map tab_elem_id ts \<and> map aria_selected ts' = map aria_selected ts"
  by (simp add: updateDayProgress_def Let_def set_first_text_ids set_first_text_selected split: option.splits)

lemma createPanel_effect:
  assumes "tab_list pg = Some ts" and "tabPanels pg = Some ps"
  shows "\<exists>pg' ts' ps'. createPanel view pg = Inr pg' \<and> tab_list pg' = Some ts' \<and> tabPanels pg' = Some ps'
           \<and> map tab_elem_id ts' = map tab_elem_id ts \<and> map aria_selected ts' = map aria_selected ts
           \<and> focus pg' = focus pg \<and> lastDay pg' = lastDay pg"
proof (cases "panels_container pg \<and> view \<noteq> ''diary'' \<and> view \<noteq> ''memories''")
  case False
  then show ?thesis using assms by (auto simp: createPanel_def Let_def)
next
  case True
  show ?thesis
  proof (cases "find_day (itineraryData pg) view")
    case None
    then show ?thesis using True assms by (simp add: createPanel_def)
  next
    case (Some day)
    from updateDayProgress_tabs [OF assms(1), of "day_id day"]
    obtain ts' where "tab_list (updateDayProgress (day_id day) pg) = Some ts'"
      "map tab_elem_id ts' = map tab_elem_id ts" "map aria_selected ts' = map aria_selected ts"
      by blast
    then show ?thesis using True Some assms
      by (simp add: createPanel_def Let_def updateDayProgress_frame)
  qed
qed

lemma createPanel_builds_day:
  assumes "panels_container pg" and "tabPanels pg = Some ps"
    and "view \<noteq> ''diary''" and "view \<noteq> ''memories''"
    and "find_day (itineraryData pg) view = Some day"
  shows "\<exists>pg'. createPanel view pg = Inr pg'
           \<and> panel_of pg' view = Some (DayBody (build_day_panel pg day))"
  using assms
  by (simp add: createPanel_def Let_def updateDayProgress_frame panel_of_def update_conv' new_panel_def)

lemma select_tab_id [simp]: "tab_elem_id (select_tab view t) = tab_elem_id t"
  by (simp add: select_tab_def Let_def)

lemma select_tab_selected [simp]:
  "aria_selected (select_tab view t) = (getIdFromTab (tab_elem_id t) = view)"
  by (simp add: select_tab_def Let_def)

lemma openTab_effect:
  assumes ts: "tab_list pg = Some ts" and ps: "tabPanels pg = Some ps"
  shows "\<exists>pg' ts'. openTab view pg = Inr pg' \<and> tab_list pg' = Some ts'
           \<and> map tab_elem_id ts' = map tab_elem_id ts
           \<and> map aria_selected ts' = map (\<lambda>t. getIdFromTab (tab_elem_id t) = view) ts
           \<and> focus pg' = focus pg
           \<and> location_dia pg' = (if view = ''diary'' then None else Some view)
           \<and> lastDay pg' = (if view \<noteq> ''diary'' \<and> view \<noteq> ''memories'' then Some view else lastDay pg)"
proof -
  define pg1 where "pg1 = pg\<lparr>tab_list := Some (map (select_tab view) ts)\<rparr>"
  have t1: "tab_list pg1 = Some (map (select_tab view) ts)" and p1: "tabPanels pg1 = Some ps"
    and f1: "focus pg1 = focus pg" and l1: "lastDay pg1 = lastDay pg"
    using assms by (simp_all add: pg1_def)
  have "\<exists>pg2 ts2. (if map_of ps view = None then createPanel view pg1 else Inr pg1) = Inr pg2
           \<and> tab_list pg2 = Some ts2
           \<and> map tab_elem_id ts2 = map tab_elem_id ts
           \<and> map aria_selected ts2 = map (\<lambda>t. getIdFromTab (tab_elem_id t) = view) ts
           \<and> focus pg2 = focus pg \<and> lastDay pg2 = lastDay pg"
  proof (cases "map_of ps view = None")
    case False
    then obtain y where "map_of ps view = Some y" by auto
    then show ?thesis using t1 f1 l1 by simp
  next
    case True
    from createPanel_effect [OF t1 p1, of view] show ?thesis
      using True f1 l1 by auto
  qed
  then obtain pg2 ts2 where step: "(if map_of ps view = None then createPanel view pg1 else Inr pg1) = Inr pg2"
    and r: "tab_list pg2 = Some ts2" "map tab_elem_id ts2 = map tab_elem_id ts"
      "map aria_selected ts2 = map (\<lambda>t. getIdFromTab (tab_elem_id t) = view) ts"
      "focus pg2 = focus pg" "lastDay pg2 = lastDay pg"
    by blast
  have "openTab view pg =
      (let pg3 = pg2\<lparr>tabPanels := map_option (map (show_panel view)) (tabPanels pg2)\<rparr>;
           pg4 = (if view \<noteq> ''diary'' \<and> view \<noteq> ''memories'' then pg3\<lparr>lastDay := Some view\<rparr> else pg3)
       in Inr (pg4\<lparr>location_dia := (if view = ''diary'' then None else Some view)\<rparr>))"
    using ts p1 step unfolding openTab_def pg1_def [symmetric] by (simp add: Let_def pg1_def [symmetric])
  then show ?thesis using r by (simp add: Let_def)
qed








lemma adjacent_prev:
  assumes ids: "day_id ` set ds = Num ` {1 .. int (length ds)}" and i: "1 \<le> i" "i \<le> int (length ds)"
  shows "(1 < i) = (Num (i - 1) \<in> day_id ` set ds)"
proof -
  have "(Num (i - 1) \<in> Num ` {1 .. int (length ds)}) = (i - 1 \<in> {1 .. int (length ds)})"
    by (auto simp: image_iff)
  then show ?thesis using ids i by auto
qed

lemma adjacent_next:
  assumes ids: "day_id ` set ds = Num ` {1 .. int (length ds)}" and i: "1 \<le> i" "i \<le> int (length ds)"
  shows "(i < int (length ds)) = (Num (i + 1) \<in> day_id ` set ds)"
proof -
  have "(Num (i + 1) \<in> Num ` {1 .. int (length ds)}) = (i + 1 \<in> {1 .. int (length ds)})"
    by (auto simp: image_iff)
  then show ?thesis using ids i by auto
qed

lemma map_of_setItem: "map_of (setItem k v ls) = (map_of ls)(k \<mapsto> v)"
  by (simp add: setItem_def update_conv')

lemma map_of_removeItem: "map_of (removeItem k ls) = (map_of ls)(k := None)"
  by (simp add: removeItem_def delete_conv')

lemma delete_absent: "k \<notin> fst ` set ls \<Longrightarrow> AList.delete k ls = ls"
  by (induction ls) auto

lemma entries_update_delete:
  assumes "distinct (map fst ls)" and "entry_of (k, v) = None"
  shows "List.map_filter entry_of (AList.update k v ls) = List.map_filter entry_of (AList.delete k ls)"
  using assms
proof (induction ls)
  case Nil
  then show ?case by simp
next
  case (Cons p ls)
  show ?case
  proof (cases "fst p = k")
    case True
    with Cons.prems have "k \<notin> fst ` set ls" by auto
    then have "AList.delete k ls = ls" by (rule delete_absent)
    with True Cons.prems show ?thesis
      by (cases p) simp
  next
    case False
    from Cons.prems have "distinct (map fst ls)" by simp
    from Cons.IH [OF this Cons.prems(2)] False show ?thesis
      by (cases p) (simp split: option.split)
  qed
qed

lemma entry_of_no_note: "\<not> truthy_prop v ''note'' \<Longrightarrow> entry_of (k, Json v) = None"
  by (simp add: entry_of_def)

lemma is_completed_unset: "\<not> truthy_prop v ''completed'' \<Longrightarrow> \<not> is_completed (Json v)"
  by (simp add: is_completed_def)

lemma parse_item_unset_completed:
  assumes "\<not> truthy_prop v ''completed''"
  shows "is_completed (parse_item (setItem k (Json v) ls) k') = is_completed (parse_item (removeItem k ls) k')"
  using assms
  by (simp add: parse_item_def map_of_setItem map_of_removeItem is_completed_def)

lemma read_saved_unset:
  assumes "\<not> truthy_prop v name"
  shows "\<not> truthy_prop (read_saved (setItem k (Json v) ls) k) name"
    and "\<not> truthy_prop (read_saved (removeItem k ls) k) name"
  using assms
  by (simp_all add: read_saved_def parse_item_def map_of_setItem map_of_removeItem truthy_prop_def)

lemma updateDiary_items_cong:
  assumes "diary_entries ls1 = diary_entries ls2"
  shows "diary_el (updateDiary (pg\<lparr>items := ls1\<rparr>)) = diary_el (updateDiary (pg\<lparr>items := ls2\<rparr>))
       \<and> tabPanels (updateDiary (pg\<lparr>items := ls1\<rparr>)) = tabPanels (updateDiary (pg\<lparr>items := ls2\<rparr>))"
  using assms
  by (simp add: updateDiary_def Let_def split: option.splits panel_body.splits)

lemma updateDayProgress_items_cong:
  assumes "\<And>n. completed_count ls1 d n = completed_count ls2 d n"
  shows "tab_list (updateDayProgress d (pg\<lparr>items := ls1\<rparr>)) = tab_list (updateDayProgress d (pg\<lparr>items := ls2\<rparr>))"
  using assms
  by (simp add: updateDayProgress_def Let_def split: option.splits)

lemma parseItinerary_fold:
  "day_cards p = cs \<Longrightarrow>
     foldl (\<lambda>(data, p) c. (data @ [parse_card c], p\<lparr>day_cards := remove1 c (day_cards p)\<rparr>)) (acc, p) cs
       = (acc @ map parse_card cs, p\<lparr>day_cards := []\<rparr>)"
proof (induction cs arbitrary: acc p)
  case Nil
  then show ?case by simp
next
  case (Cons c cs)
  have "day_cards (p\<lparr>day_cards := cs\<rparr>) = cs" by simp
  from Cons.IH [OF this, of "acc @ [parse_card c]"] Cons.prems show ?case by simp
qed

lemma parseItinerary_eq:
  "parseItinerary pg = (map parse_card (day_cards pg), pg\<lparr>day_cards := []\<rparr>)"
  using parseItinerary_fold [of pg "day_cards pg" "[]"] by (simp add: parseItinerary_def)

lemma parse_li_missing:
  "(querySelector TransportNode li = None \<longrightarrow> transport (parse_li li) = None)
   \<and> (querySelector TimeNode li = None \<longrightarrow> time (parse_li li) = [])"
  by (simp add: parse_li_def Let_def)

lemma digit_char_props: "d < 10 \<Longrightarrow> is_digit (digit_char d) \<and> digit_val (digit_char d) = d"
  by (simp add: is_digit_def digit_val_def digit_char_def Let_def)

lemma digits_to_nat_snoc: "digits_to_nat (ds @ [c]) = 10 * digits_to_nat ds + digit_val c"
  by (simp add: digits_to_nat_def)

lemma nat_to_string_digits:
  "nat_to_string n \<noteq> [] \<and> list_all is_digit (nat_to_string n) \<and> digits_to_nat (nat_to_string n) = n"
proof (induction n rule: nat_to_string.induct)
  case (1 n)
  show ?case
  proof (cases "n < 10")
    case True
    then show ?thesis
      using digit_char_props [of n] by (simp add: nat_to_string.simps [of n] digits_to_nat_def)
  next
    case False
    with 1 have ih: "nat_to_string (n div 10) \<noteq> []" "list_all is_digit (nat_to_string (n div 10))"
      "digits_to_nat (nat_to_string (n div 10)) = n div 10" by simp_all
    have d: "is_digit (digit_char (n mod 10))" "digit_val (digit_char (n mod 10)) = n mod 10"
      using digit_char_props [of "n mod 10"] by simp_all
    show ?thesis
      using False ih d by (simp add: nat_to_string.simps [of n] digits_to_nat_snoc)
  qed
qed

lemma ws_first_bytes:
  "\<forall>w \<in> set ws_seqs. w \<noteq> [] \<and> (of_char (hd w) :: nat) \<in> {9, 10, 11, 12, 13, 32, 194, 225, 226, 227, 239}"
  by (simp add: ws_seqs_def)

lemma strip_ws_no_prefix: "find (\<lambda>w. prefix w s) seqs = None \<Longrightarrow> strip_ws seqs n s = s"
  by (cases n) simp_all

lemma digit_not_space:
  assumes "is_digit c"
  shows "strip_leading (c # cs) = c # cs"
proof -
  have "\<not> prefix w (c # cs)" if w: "w \<in> set ws_seqs" for w
  proof
    assume p: "prefix w (c # cs)"
    from w ws_first_bytes have ne: "w \<noteq> []"
      and b: "(of_char (hd w) :: nat) \<in> {9, 10, 11, 12, 13, 32, 194, 225, 226, 227, 239}" by auto
    from p ne have "hd w = c" by (cases w) auto
    with b assms show False by (auto simp: is_digit_def Let_def)
  qed
  then have "find (\<lambda>w. prefix w (c # cs)) ws_seqs = None"
    by (simp add: find_None_iff)
  then show ?thesis
    unfolding strip_leading_def by (rule strip_ws_no_prefix)
qed

lemma digit_not_sign: "is_digit c \<Longrightarrow> c \<noteq> CHR ''-'' \<and> c \<noteq> CHR ''+''"
  by (auto simp: is_digit_def Let_def)

lemma parseInt_digits:
  assumes "s \<noteq> []" and "list_all is_digit s"
  shows "parseInt (Some s) = Num (int (digits_to_nat s))"
proof -
  from assms obtain c cs where s: "s = c # cs" and c: "is_digit c" and cs: "list_all is_digit cs"
    by (cases s) auto
  have tw: "takeWhile is_digit cs = cs"
    using cs by (simp add: list_all_iff)
  show ?thesis
    using digit_not_space [OF c] digit_not_sign [OF c] c
    by (simp add: parseInt_def s Let_def tw)
qed

lemma parseInt_nat_to_string: "parseInt (Some (nat_to_string n)) = Num (int n)"
  using nat_to_string_digits [of n] parseInt_digits [of "nat_to_string n"] by simp

section \<open>The model at work\<close>

text \<open>
  Starting the page on a document with two day cards and \<open>dia=2\<close> in its address:
  the tab strip with its labels, the address, the stored last day and the panels built.
\<close>

lemma startup_example:
  "map_sum id (\<lambda>pg. (map tab_text (the (tab_list pg)), location_dia pg, lastDay pg, map fst (the (tabPanels pg))))
         (domContentLoaded (example_document\<lparr>location_dia := Some ''2''\<rparr>))
       = Inr ([''Dia 1 (0/2)'', ''Dia 2'', memories_label], Some ''2'', Some ''2'', [''2''])"
  by code_simp

text \<open>
  Un-marking the completed first row of day 1 stores \<open>{"completed": false}\<close> and
  updates the label of the tab.
\<close>

lemma done_click_example:
  "map_of (items (done_click ''1'' 0 day1_open)) ''day-1-item-0'' = Some (Json (JObj [(''completed'', JBool False)]))
   \<and> tab_text_of (done_click ''1'' 0 day1_open) ''tab-1'' = Some ''Dia 1 (0/2)''"
  by code_simp

section \<open>Properties\<close>

text \<open>
  C1 (startup view). The specification gives the \<open>dia\<close> parameter of the address
  precedence whenever it is present. The code tests the value it has read with \<open>!id\<close>, so an empty
  \<open>dia\<close> parameter does not win: on \<open>example_page\<close> the address carries \<open>dia=\<close>, the
  stored last day is 3, and the view that is opened is day 1.
\<close>

theorem empty_dia_parameter_counterexample:
  "location_dia example_page = Some [] \<and> lastDay example_page = Some ''3''
   \<and> restore_id (location_dia example_page) (lastDay example_page) example_days = ''1''
   \<and> map_sum id location_dia (restoreLastDay example_days example_page) = Inr (Some ''1'')"
  by code_simp

text \<open>
  C1, amended. A non-empty \<open>dia\<close> parameter is the view that \<open>restoreLastDay\<close> opens,
  whatever is stored; without a \<open>dia\<close> parameter a non-empty stored \<open>lastDay\<close> is
  opened; without a \<open>dia\<close> parameter and with no (or an empty) stored \<open>lastDay\<close> the
  first day of the itinerary is opened, and the diary when the itinerary is empty.
\<close>

theorem startup_view_precedence:
  "(v \<noteq> [] \<and> location_dia pg = Some v \<longrightarrow> restoreLastDay ds pg = openTab v pg)
   \<and> (w \<noteq> [] \<and> location_dia pg = None \<and> lastDay pg = Some w \<longrightarrow> restoreLastDay ds pg = openTab w pg)
   \<and> (location_dia pg = None \<and> (lastDay pg = None \<or> lastDay pg = Some [])
        \<longrightarrow> restoreLastDay (d # rest) pg = openTab (num_to_string (day_id d)) pg
          \<and> restoreLastDay [] pg = openTab ''diary'' pg)"
  by (auto simp: restoreLastDay_def restore_id_def falsy_str_def Let_def)

theorem startup_view_precedence_witness:
  "restoreLastDay example_days (example_page\<lparr>location_dia := Some ''2''\<rparr>)
     = openTab ''2'' (example_page\<lparr>location_dia := Some ''2''\<rparr>)
   \<and> restoreLastDay example_days (example_page\<lparr>location_dia := None\<rparr>)
     = openTab ''3'' (example_page\<lparr>location_dia := None\<rparr>)
   \<and> restoreLastDay (hd example_days # tl example_days) (example_page\<lparr>location_dia := None, lastDay := None\<rparr>)
     = openTab (num_to_string (day_id (hd example_days))) (example_page\<lparr>location_dia := None, lastDay := None\<rparr>)
   \<and> restoreLastDay [] (example_page\<lparr>location_dia := None, lastDay := None\<rparr>)
     = openTab ''diary'' (example_page\<lparr>location_dia := None, lastDay := None\<rparr>)"
  using startup_view_precedence [where v = "''2''" and pg = "example_page\<lparr>location_dia := Some ''2''\<rparr>" and ds = example_days]
        startup_view_precedence [where w = "''3''" and pg = "example_page\<lparr>location_dia := None\<rparr>" and ds = example_days]
        startup_view_precedence [where pg = "example_page\<lparr>location_dia := None, lastDay := None\<rparr>"
                                   and d = "hd example_days" and rest = "tl example_days"]
  by (simp add: example_page_def)

text \<open>
  C2 (address of the active view). The specification has \<open>openTab\<close> clear the
  \<open>dia\<close> parameter for the memories view as for the diary. The code removes the parameter for
  \<open>"diary"\<close> only: opening the memories view sets \<open>dia=memories\<close>.
\<close>

theorem openTab_memories_counterexample:
  "map_sum id location_dia (openTab ''memories'' example_page) = Inr (Some ''memories'')"
  by code_simp

text \<open>
  C2, amended. On a page with its tab strip and panel registry, \<open>openTab\<close> returns,
  and afterwards the \<open>dia\<close> parameter is absent when the view is \<open>"diary"\<close> and holds
  the view id for every other view: the day ids and \<open>"memories"\<close>.
\<close>

theorem openTab_address:
  assumes "tab_list pg = Some ts" and "tabPanels pg = Some ps"
  shows "\<exists>pg'. openTab view pg = Inr pg'
             \<and> location_dia pg' = (if view = ''diary'' then None else Some view)"
  using openTab_effect [OF assms, of view] by blast

theorem openTab_address_witness:
  "tab_list example_page = Some example_tabs \<and> tabPanels example_page = Some []
   \<and> map_sum id location_dia (openTab ''2'' example_page) = Inr (Some ''2'')
   \<and> map_sum id location_dia (openTab ''diary'' example_page) = Inr None"
proof -
  have t: "tab_list example_page = Some example_tabs" and p: "tabPanels example_page = Some []"
    by (simp_all add: example_page_def)
  from openTab_address [OF t p, of "''2''"] openTab_address [OF t p, of "''diary''"] t p
  show ?thesis by auto
qed





text \<open>
  C5 (previous and next buttons). The specification ties each button to the existence
  of the numerically adjacent day, also for ids with gaps. The code compares the id with 1
  and with the number of days: for the days 1 and 3, the panel of day 3 has a
  "previous" button and the panel of day 1 a "next" button, both to a day 2 that does
  not exist.
\<close>

theorem gap_nav_buttons_counterexample:
  "prevBtn (build_day_panel (example_page\<lparr>itineraryData := gap_days\<rparr>) (gap_days ! 1)) = Some ''2''
   \<and> nextBtn (build_day_panel (example_page\<lparr>itineraryData := gap_days\<rparr>) (gap_days ! 0)) = Some ''2''
   \<and> \<not> has_day gap_days (Num 2)
   \<and> map_sum id (\<lambda>pg. panel_of pg ''3'') (createPanel ''3'' (example_page\<lparr>itineraryData := gap_days\<rparr>))
       = Inr (Some (DayBody (build_day_panel (example_page\<lparr>itineraryData := gap_days\<rparr>) (gap_days ! 1))))"
  by code_simp

text \<open>
  C5, amended. \<open>createPanel\<close> registers for a day of the itinerary the panel that
  \<open>build_day_panel\<close> describes. The panel built for a day with id \<open>d\<close> has a "previous day" button
  exactly when \<open>d > 1\<close> and a "next day" button exactly when \<open>d\<close> is less than the
  number of days; when the ids of the itinerary are the numbers from 1 to the number of
  days, this is exactly when a day with id \<open>d - 1\<close>, respectively \<open>d + 1\<close>, exists.
\<close>

theorem day_nav_buttons:
  "(panels_container pg \<and> tabPanels pg = Some ps \<and> view \<noteq> ''diary'' \<and> view \<noteq> ''memories''
      \<and> find_day (itineraryData pg) view = Some day
      \<longrightarrow> (\<exists>pg'. createPanel view pg = Inr pg'
             \<and> panel_of pg' view = Some (DayBody (build_day_panel pg day))))
   \<and> (prevBtn (build_day_panel pg day) \<noteq> None) = num_gt (day_id day) 1
   \<and> (nextBtn (build_day_panel pg day) \<noteq> None) = num_lt (day_id day) (int (length (itineraryData pg)))
   \<and> (day_id ` set (itineraryData pg) = Num ` {1 .. int (length (itineraryData pg))} \<and> day \<in> set (itineraryData pg)
        \<longrightarrow> (prevBtn (build_day_panel pg day) \<noteq> None) = has_day (itineraryData pg) (num_add (day_id day) (- 1))
          \<and> (nextBtn (build_day_panel pg day) \<noteq> None) = has_day (itineraryData pg) (num_add (day_id day) 1))"
proof -
  have a: "(prevBtn (build_day_panel pg day) \<noteq> None) = num_gt (day_id day) 1"
    and b: "(nextBtn (build_day_panel pg day) \<noteq> None) = num_lt (day_id day) (int (length (itineraryData pg)))"
    by (simp_all add: build_day_panel_def)
  have c: "(prevBtn (build_day_panel pg day) \<noteq> None) = has_day (itineraryData pg) (num_add (day_id day) (- 1))
          \<and> (nextBtn (build_day_panel pg day) \<noteq> None) = has_day (itineraryData pg) (num_add (day_id day) 1)"
    if ids: "day_id ` set (itineraryData pg) = Num ` {1 .. int (length (itineraryData pg))}"
      and mem: "day \<in> set (itineraryData pg)"
  proof -
    from mem have "day_id day \<in> day_id ` set (itineraryData pg)" by simp
    with ids obtain i where i: "day_id day = Num i" "1 \<le> i" "i \<le> int (length (itineraryData pg))"
      by auto
    have h: "has_day (itineraryData pg) n = (n \<in> day_id ` set (itineraryData pg))" for n
      by (auto simp: has_day_def list_ex_iff)
    show ?thesis
      using adjacent_prev [OF ids i(2,3)] adjacent_next [OF ids i(2,3)] i(1)
      by (simp add: a b h num_gt_def num_lt_def num_add_def del: not_None_eq)
  qed
  have p: "\<exists>pg'. createPanel view pg = Inr pg'
             \<and> panel_of pg' view = Some (DayBody (build_day_panel pg day))"
    if "panels_container pg \<and> tabPanels pg = Some ps \<and> view \<noteq> ''diary'' \<and> view \<noteq> ''memories''
      \<and> find_day (itineraryData pg) view = Some day"
    using that createPanel_builds_day [of pg ps view day] by blast
  show ?thesis using a b c p by blast
qed

theorem day_nav_buttons_witness:
  "day_id ` set (itineraryData example_page) = Num ` {1 .. int (length (itineraryData example_page))}
   \<and> example_days ! 3 \<in> set (itineraryData example_page)
   \<and> (prevBtn (build_day_panel example_page (example_days ! 3)) \<noteq> None)
        = has_day (itineraryData example_page) (num_add (day_id (example_days ! 3)) (- 1))
   \<and> (nextBtn (build_day_panel example_page (example_days ! 3)) \<noteq> None)
        = has_day (itineraryData example_page) (num_add (day_id (example_days ! 3)) 1)
   \<and> prevBtn (build_day_panel example_page (example_days ! 3)) = Some ''3''
   \<and> nextBtn (build_day_panel example_page (example_days ! 3)) = None
   \<and> panels_container example_page \<and> tabPanels example_page = Some []
   \<and> find_day (itineraryData example_page) ''4'' = Some (example_days ! 3)
   \<and> (\<exists>pg'. createPanel ''4'' example_page = Inr pg'
          \<and> panel_of pg' ''4'' = Some (DayBody (build_day_panel example_page (example_days ! 3))))"
proof -
  have s: "{1 .. 4::int} = {1, 2, 3, 4}" by auto
  have ids: "day_id ` set (itineraryData example_page) = Num ` {1 .. int (length (itineraryData example_page))}"
    by (simp add: example_page_def example_days_def s)
  have mem: "example_days ! 3 \<in> set (itineraryData example_page)"
    by (simp add: example_page_def example_days_def)
  have ev: "prevBtn (build_day_panel example_page (example_days ! 3)) = Some ''3''"
    "nextBtn (build_day_panel example_page (example_days ! 3)) = None"
    by code_simp+
  have cp: "panels_container example_page" "tabPanels example_page = Some []"
    by (simp_all add: example_page_def)
  have fd: "find_day (itineraryData example_page) ''4'' = Some (example_days ! 3)"
    by code_simp
  have ne: "''4'' \<noteq> ''diary''" "''4'' \<noteq> ''memories''" by simp_all
  from day_nav_buttons [of example_page "[]" "''4''" "example_days ! 3"] ids mem ev cp fd ne
  show ?thesis by blast
qed

text \<open>
  C6 (listing memories). The specification lists five filters and has the answer hold
  exactly the memories that satisfy the supplied ones, for every combination of query
  parameters. The handler has a sixth filter, \<open>tag\<close>: with \<open>tag=mar\<close> alone, the
  second stored memory satisfies the five listed filters (none is supplied) and is not
  in the answer.
\<close>

theorem tag_filter_counterexample:
  "filter (satisfies_listed_filters ascii_lower example_dates (no_params\<lparr>q_tag := Some ''mar''\<rparr>))
          (memories (db example_server)) = memories (db example_server)
   \<and> get_memories ascii_lower example_dates \<lparr>user = Some ''carina''\<rparr> (no_params\<lparr>q_tag := Some ''mar''\<rparr>)
        example_server
       = ReplyMemories 200 [memories (db example_server) ! 0, memories (db example_server) ! 2]
   \<and> length (memories (db example_server)) = 3"
  by code_simp

text \<open>
  C6, amended. For a logged-in session, \<open>GET /memories\<close> answers 200 with exactly
  the stored memories, in their stored order, that satisfy every supplied filter, a
  parameter being supplied when it is present and not empty: the five listed ones
  (\<open>q\<close> is contained in the lower-cased title or text; \<open>status\<close> is equal; the date is
  not before \<open>from\<close> and not after \<open>to\<close>, bounds included; the text of the memory's
  \<open>day\<close> is equal to \<open>day\<close>, a missing or blank \<open>day\<close> parameter filtering nothing)
  and \<open>tag\<close>, which is one of the memory's tags up to case. The lower-casing is the
  runtime's, of which only this is used: it gives the empty text for the empty text
  alone.
\<close>

theorem memories_filter_exact:
  assumes auth: "user s = Some u"
    and low: "\<forall>x. (lower x = []) = (x = [])"
  shows "get_memories lower parse_date s qr st
           = ReplyMemories 200
               (filter (\<lambda>m. satisfies_listed_filters lower parse_date qr m \<and> satisfies_tag_filter lower qr m)
                       (memories (db st)))"
proof -
  have guard: "(is_supplied v \<longrightarrow>
                  (t \<noteq> [] \<and> str_includes (lower t) (lower (param_text v)))
                  \<or> (x \<noteq> [] \<and> str_includes (lower x) (lower (param_text v))))
             = (is_supplied v \<longrightarrow>
                  str_includes (lower t) (lower (param_text v)) \<or> str_includes (lower x) (lower (param_text v)))"
    for v t x
  proof (cases "is_supplied v")
    case True
    then have ne: "param_text v \<noteq> []"
      by (auto simp: is_supplied_def param_text_def split: option.splits)
    from low have l: "\<And>y. (lower y = []) = (y = [])" by simp
    show ?thesis
      using title_guard [of lower "param_text v" t, OF l ne] title_guard [of lower "param_text v" x, OF l ne]
      by simp
  next
    case False
    then show ?thesis by simp
  qed
  have "get_memories lower parse_date s qr st = ReplyMemories 200
     (filter (\<lambda>m. is_supplied (q_q qr) \<longrightarrow>
                  str_includes (lower (mem_title m)) (lower (param_text (q_q qr)))
                  \<or> str_includes (lower (mem_text m)) (lower (param_text (q_q qr))))
       (filter (\<lambda>m. is_supplied (q_to qr) \<longrightarrow> not_after parse_date (mem_date m) (param_text (q_to qr)))
        (filter (\<lambda>m. is_supplied (q_from qr) \<longrightarrow> not_before parse_date (mem_date m) (param_text (q_from qr)))
         (filter (\<lambda>m. q_day qr \<noteq> None \<and> \<not> is_blank (param_text (q_day qr)) \<longrightarrow>
               (case mem_day m of None \<Rightarrow> False | Some dv \<Rightarrow> day_to_string dv = param_text (q_day qr)))
          (filter (\<lambda>m. is_supplied (q_status qr) \<longrightarrow> mem_status m = param_text (q_status qr))
           (filter (\<lambda>m. is_supplied (q_tag qr) \<longrightarrow>
                       list_ex (\<lambda>t. lower t = lower (param_text (q_tag qr))) (mem_tags m))
             (memories (db st))))))))"
    using auth
    by (simp add: get_memories_def Let_def if_param_filter day_filter_filter guard
                  date_ge_not_before date_le_not_after del: not_None_eq)
  also have "\<dots> = ReplyMemories 200
               (filter (\<lambda>m. satisfies_listed_filters lower parse_date qr m \<and> satisfies_tag_filter lower qr m)
                       (memories (db st)))"
    by (auto simp: satisfies_listed_filters_def satisfies_tag_filter_def list_ex_iff intro!: filter_cong)
  finally show ?thesis .
qed

theorem memories_filter_exact_witness:
  "user \<lparr>user = Some ''carina''\<rparr> = Some ''carina''
   \<and> (\<forall>x. (ascii_lower x = []) = (x = []))
   \<and> get_memories ascii_lower example_dates \<lparr>user = Some ''carina''\<rparr>
        (no_params\<lparr>q_status := Some ''public'', q_q := Some ''praia''\<rparr>) example_server
       = ReplyMemories 200 [example_memory]
   \<and> get_memories ascii_lower example_dates \<lparr>user = Some ''carina''\<rparr>
        (no_params\<lparr>q_from := Some ''2024-01-10'', q_to := Some ''2024-01-10''\<rparr>) example_server
       = ReplyMemories 200 [example_memory]
   \<and> get_memories ascii_lower example_dates \<lparr>user = Some ''carina''\<rparr>
        (no_params\<lparr>q_day := Some ''2'', q_to := Some ''2024-01-10''\<rparr>) example_server
       = ReplyMemories 200 [example_memory, memories (db example_server) ! 2]
   \<and> get_memories ascii_lower example_dates \<lparr>user = Some ''carina''\<rparr> (no_params\<lparr>q_day := Some '' ''\<rparr>) example_server
       = ReplyMemories 200 (memories (db example_server))
   \<and> get_memories ascii_lower example_dates \<lparr>user = Some ''carina''\<rparr> (no_params\<lparr>q_tag := Some ''MAR''\<rparr>) example_server
       = ReplyMemories 200 [example_memory, memories (db example_server) ! 2]"
proof -
  have u: "user \<lparr>user = Some ''carina''\<rparr> = Some ''carina''" by simp
  have l: "\<forall>x. (ascii_lower x = []) = (x = [])" by (simp add: ascii_lower_def)
  have f1: "filter (\<lambda>m. satisfies_listed_filters ascii_lower example_dates (no_params\<lparr>q_status := Some ''public'', q_q := Some ''praia''\<rparr>) m
                       \<and> satisfies_tag_filter ascii_lower (no_params\<lparr>q_status := Some ''public'', q_q := Some ''praia''\<rparr>) m)
              (memories (db example_server)) = [example_memory]"
    by code_simp
  have f2: "filter (\<lambda>m. satisfies_listed_filters ascii_lower example_dates (no_params\<lparr>q_from := Some ''2024-01-10'', q_to := Some ''2024-01-10''\<rparr>) m
                       \<and> satisfies_tag_filter ascii_lower (no_params\<lparr>q_from := Some ''2024-01-10'', q_to := Some ''2024-01-10''\<rparr>) m)
              (memories (db example_server)) = [example_memory]"
    by code_simp
  have f3: "filter (\<lambda>m. satisfies_listed_filters ascii_lower example_dates (no_params\<lparr>q_day := Some ''2'', q_to := Some ''2024-01-10''\<rparr>) m
                       \<and> satisfies_tag_filter ascii_lower (no_params\<lparr>q_day := Some ''2'', q_to := Some ''2024-01-10''\<rparr>) m)
              (memories (db example_server)) = [example_memory, memories (db example_server) ! 2]"
    by code_simp
  have f4: "filter (\<lambda>m. satisfies_listed_filters ascii_lower example_dates (no_params\<lparr>q_day := Some '' ''\<rparr>) m
                       \<and> satisfies_tag_filter ascii_lower (no_params\<lparr>q_day := Some '' ''\<rparr>) m)
              (memories (db example_server)) = memories (db example_server)"
    by code_simp
  have f5: "filter (\<lambda>m. satisfies_listed_filters ascii_lower example_dates (no_params\<lparr>q_tag := Some ''MAR''\<rparr>) m
                       \<and> satisfies_tag_filter ascii_lower (no_params\<lparr>q_tag := Some ''MAR''\<rparr>) m)
              (memories (db example_server)) = [example_memory, memories (db example_server) ! 2]"
    by code_simp
  from memories_filter_exact [OF u l, of example_dates "no_params\<lparr>q_status := Some ''public'', q_q := Some ''praia''\<rparr>" example_server]
       memories_filter_exact [OF u l, of example_dates "no_params\<lparr>q_from := Some ''2024-01-10'', q_to := Some ''2024-01-10''\<rparr>" example_server]
       memories_filter_exact [OF u l, of example_dates "no_params\<lparr>q_day := Some ''2'', q_to := Some ''2024-01-10''\<rparr>" example_server]
       memories_filter_exact [OF u l, of example_dates "no_params\<lparr>q_day := Some '' ''\<rparr>" example_server]
       memories_filter_exact [OF u l, of example_dates "no_params\<lparr>q_tag := Some ''MAR''\<rparr>" example_server]
       f1 f2 f3 f4 f5 u l
  show ?thesis by simp
qed

text \<open>
  C7 (ownership). For a stored memory \<open>m\<close> (memory ids being unique) and a logged-in
  user who is not its owner, \<open>PUT /memories/:id\<close> and \<open>DELETE /memories/:id\<close> on the
  id of \<open>m\<close> answer 403 and leave the server state, with every memory, every comment
  and every file, as it was.
\<close>

theorem non_owner_rejected:
  assumes auth: "user s = Some u"
    and mem: "m \<in> set (memories (db st))"
    and ids: "distinct (map mem_id (memories (db st)))"
    and other: "mem_user m \<noteq> u"
  shows "put_memory to_number now s (mem_id m) b files st = (ReplyError 403 AccessDenied, st)
       \<and> delete_memory s (mem_id m) st = (ReplyError 403 AccessDenied, st)"
proof -
  from findIndex_distinct [OF mem ids]
  obtain i where i: "findIndex (\<lambda>x. mem_id x = mem_id m) (memories (db st)) = Some i"
    and at: "memories (db st) ! i = m"
    by blast
  show ?thesis
    using auth i at other by (simp add: put_memory_def delete_memory_def)
qed

theorem non_owner_rejected_witness:
  "user \<lparr>user = Some ''carina''\<rparr> = Some ''carina''
   \<and> example_memory \<in> set (memories (db example_server))
   \<and> distinct (map mem_id (memories (db example_server)))
   \<and> mem_user example_memory \<noteq> ''carina''
   \<and> put_memory integer_number ''18'' \<lparr>user = Some ''carina''\<rparr> ''a1'' (no_fields\<lparr>b_title := Some ''x''\<rparr>) [''f2.png''] example_server
       = (ReplyError 403 AccessDenied, example_server)
   \<and> delete_memory \<lparr>user = Some ''carina''\<rparr> ''a1'' example_server = (ReplyError 403 AccessDenied, example_server)"
proof -
  have u: "user \<lparr>user = Some ''carina''\<rparr> = Some ''carina''" by simp
  have m: "example_memory \<in> set (memories (db example_server))" by (simp add: example_server_def)
  have d: "distinct (map mem_id (memories (db example_server)))"
    by (simp add: example_server_def example_memory_def)
  have o: "mem_user example_memory \<noteq> ''carina''" by (simp add: example_memory_def)
  have i: "mem_id example_memory = ''a1''" by (simp add: example_memory_def)
  from non_owner_rejected [OF u m d o, of integer_number "''18''" "no_fields\<lparr>b_title := Some ''x''\<rparr>" "[''f2.png'']"]
       u m d o i
  show ?thesis by simp
qed

text \<open>
  C8 (an unset item state is the absent state). With one value for each storage key,
  storing under the key of a (day, index) pair a state whose \<open>completed\<close> is not set
  and that has no note reads like removing the key: the row is rendered as not
  completed and without a note, the diary entries are the same and \<open>updateDiary\<close>
  renders the same diary, and the completed count of every day is the same and
  \<open>updateDayProgress\<close> writes the same tab labels.
\<close>

theorem unset_item_state_is_absent:
  assumes keys: "distinct (map fst ls)"
    and c: "\<not> truthy_prop v ''completed''"
    and n: "\<not> truthy_prop v ''note''"
    and k: "k = item_key dayId index"
  shows "\<not> iv_completed (item_view_of (setItem k (Json v) ls) dayId index item)
       \<and> iv_note (item_view_of (setItem k (Json v) ls) dayId index item) = None
       \<and> \<not> iv_completed (item_view_of (removeItem k ls) dayId index item)
       \<and> iv_note (item_view_of (removeItem k ls) dayId index item) = None
       \<and> diary_entries (setItem k (Json v) ls) = diary_entries (removeItem k ls)
       \<and> diary_el (updateDiary (pg\<lparr>items := setItem k (Json v) ls\<rparr>))
           = diary_el (updateDiary (pg\<lparr>items := removeItem k ls\<rparr>))
       \<and> tabPanels (updateDiary (pg\<lparr>items := setItem k (Json v) ls\<rparr>))
           = tabPanels (updateDiary (pg\<lparr>items := removeItem k ls\<rparr>))
       \<and> completed_count (setItem k (Json v) ls) d m = completed_count (removeItem k ls) d m
       \<and> tab_list (updateDayProgress d (pg\<lparr>items := setItem k (Json v) ls\<rparr>))
           = tab_list (updateDayProgress d (pg\<lparr>items := removeItem k ls\<rparr>))"
proof -
  have views: "\<not> iv_completed (item_view_of (setItem k (Json v) ls) dayId index item)"
    "iv_note (item_view_of (setItem k (Json v) ls) dayId index item) = None"
    "\<not> iv_completed (item_view_of (removeItem k ls) dayId index item)"
    "iv_note (item_view_of (removeItem k ls) dayId index item) = None"
    using read_saved_unset [OF c, of k ls] read_saved_unset [OF n, of k ls] k
    by (simp_all add: item_view_of_def Let_def)
  have diary: "diary_entries (setItem k (Json v) ls) = diary_entries (removeItem k ls)"
    using entries_update_delete [OF keys entry_of_no_note [OF n]]
    by (simp add: diary_entries_def setItem_def removeItem_def)
  have count: "completed_count (setItem k (Json v) ls) d m = completed_count (removeItem k ls) d m" for m
    by (simp add: completed_count_def parse_item_unset_completed [OF c])
  show ?thesis
    using views diary count updateDiary_items_cong [OF diary, of pg] updateDayProgress_items_cong [OF count, of pg]
    by simp
qed

theorem unset_item_state_is_absent_witness:
  "distinct (map fst example_items)
   \<and> \<not> truthy_prop (JObj [(''completed'', JBool False)]) ''completed''
   \<and> \<not> truthy_prop (JObj [(''completed'', JBool False)]) ''note''
   \<and> item_key (Num 1) 0 = ''day-1-item-0''
   \<and> diary_entries (setItem ''day-1-item-0'' (Json (JObj [(''completed'', JBool False)])) example_items)
       = diary_entries (removeItem ''day-1-item-0'' example_items)
   \<and> diary_entries (removeItem ''day-1-item-0'' example_items) = [(1, JStr ''sol'')]
   \<and> completed_count (setItem ''day-1-item-0'' (Json (JObj [(''completed'', JBool False)])) example_items) (Num 1) 2
       = completed_count (removeItem ''day-1-item-0'' example_items) (Num 1) 2
   \<and> completed_count (removeItem ''day-1-item-0'' example_items) (Num 1) 2 = 0
   \<and> completed_count example_items (Num 1) 2 = 1"
proof -
  have keys: "distinct (map fst example_items)" by (simp add: example_items_def)
  have c: "\<not> truthy_prop (JObj [(''completed'', JBool False)]) ''completed''"
    and n: "\<not> truthy_prop (JObj [(''completed'', JBool False)]) ''note''"
    by (simp_all add: truthy_prop_def)
  have k: "''day-1-item-0'' = item_key (Num 1) 0" by code_simp
  have e: "diary_entries (removeItem ''day-1-item-0'' example_items) = [(1, JStr ''sol'')]"
    "completed_count (removeItem ''day-1-item-0'' example_items) (Num 1) 2 = 0"
    "completed_count example_items (Num 1) 2 = 1"
    by code_simp+
  from unset_item_state_is_absent [OF keys c n k, where d = "Num 1" and m = 2 and pg = example_page]
       keys c n k [symmetric] e
  show ?thesis by simp
qed

text \<open>
  C9 (the extractor). \<open>parseItinerary\<close> returns one record for each day card, in the
  order of the cards, with the id parsed from the card's \<open>data-day\<close> attribute (cards
  numbered by the decimal numerals of \<open>ns\<close> give the ids \<open>ns\<close>), and leaves no day
  card in the document. A card without a highlight gives no highlight; each record
  has one schedule item for each row; a row without a transport note gives no
  transport, and a row without a time gives the empty time label. The extractor is a
  total function: no input makes it fail.
\<close>

theorem extractor_records:
  "length (fst (parseItinerary pg)) = length (day_cards pg)
   \<and> map day_id (fst (parseItinerary pg)) = map (\<lambda>c. parseInt (dataset_day c)) (day_cards pg)
   \<and> (map dataset_day (day_cards pg) = map (\<lambda>n. Some (nat_to_string n)) ns
        \<longrightarrow> map day_id (fst (parseItinerary pg)) = map (\<lambda>n. Num (int n)) ns)
   \<and> day_cards (snd (parseItinerary pg)) = []
   \<and> (\<forall>i < length (day_cards pg).
        (highlightEl (day_cards pg ! i) = None \<longrightarrow> highlight (fst (parseItinerary pg) ! i) = None)
        \<and> length (schedule (fst (parseItinerary pg) ! i)) = length (scheduleItems (day_cards pg ! i))
        \<and> (\<forall>j < length (scheduleItems (day_cards pg ! i)).
             (querySelector TransportNode (scheduleItems (day_cards pg ! i) ! j) = None
                \<longrightarrow> transport (schedule (fst (parseItinerary pg) ! i) ! j) = None)
             \<and> (querySelector TimeNode (scheduleItems (day_cards pg ! i) ! j) = None
                \<longrightarrow> time (schedule (fst (parseItinerary pg) ! i) ! j) = [])))"
proof -
  have ids: "map day_id (fst (parseItinerary pg)) = map (\<lambda>c. parseInt (dataset_day c)) (day_cards pg)"
    by (simp add: parseItinerary_eq parse_card_def)
  have num: "map day_id (fst (parseItinerary pg)) = map (\<lambda>n. Num (int n)) ns"
    if "map dataset_day (day_cards pg) = map (\<lambda>n. Some (nat_to_string n)) ns"
  proof -
    have "map (\<lambda>c. parseInt (dataset_day c)) (day_cards pg) = map parseInt (map dataset_day (day_cards pg))"
      by simp
    also have "\<dots> = map (\<lambda>n. Num (int n)) ns"
      unfolding that by (simp add: parseInt_nat_to_string)
    finally show ?thesis using ids by simp
  qed
  have rest: "length (fst (parseItinerary pg)) = length (day_cards pg)
     \<and> day_cards (snd (parseItinerary pg)) = []
     \<and> (\<forall>i < length (day_cards pg).
        (highlightEl (day_cards pg ! i) = None \<longrightarrow> highlight (fst (parseItinerary pg) ! i) = None)
        \<and> length (schedule (fst (parseItinerary pg) ! i)) = length (scheduleItems (day_cards pg ! i))
        \<and> (\<forall>j < length (scheduleItems (day_cards pg ! i)).
             (querySelector TransportNode (scheduleItems (day_cards pg ! i) ! j) = None
                \<longrightarrow> transport (schedule (fst (parseItinerary pg) ! i) ! j) = None)
             \<and> (querySelector TimeNode (scheduleItems (day_cards pg ! i) ! j) = None
                \<longrightarrow> time (schedule (fst (parseItinerary pg) ! i) ! j) = [])))"
    by (simp add: parseItinerary_eq parse_card_def parse_li_missing)
  show ?thesis using ids num rest by blast
qed

theorem extractor_records_witness:
  "map dataset_day (day_cards example_document) = map (\<lambda>n. Some (nat_to_string n)) [1, 2]
   \<and> map day_id (fst (parseItinerary example_document)) = map (\<lambda>n. Num (int n)) [1, 2]
   \<and> 0 < length (day_cards example_document)
   \<and> highlightEl (day_cards example_document ! 0) = None
   \<and> highlight (fst (parseItinerary example_document) ! 0) = None
   \<and> 1 < length (scheduleItems (day_cards example_document ! 0))
   \<and> querySelector TransportNode (scheduleItems (day_cards example_document ! 0) ! 1) = None
   \<and> transport (schedule (fst (parseItinerary example_document) ! 0) ! 1) = None
   \<and> querySelector TimeNode (scheduleItems (day_cards example_document ! 0) ! 1) = None
   \<and> time (schedule (fst (parseItinerary example_document) ! 0) ! 1) = []"
proof -
  have a: "map dataset_day (day_cards example_document) = map (\<lambda>n. Some (nat_to_string n)) [1, 2]"
    by (simp add: example_document_def example_cards_def)
  have b: "0 < length (day_cards example_document)"
    "highlightEl (day_cards example_document ! 0) = None"
    "1 < length (scheduleItems (day_cards example_document ! 0))"
    by (simp_all add: example_document_def example_cards_def)
  have c: "querySelector TransportNode (scheduleItems (day_cards example_document ! 0) ! 1) = None"
    "querySelector TimeNode (scheduleItems (day_cards example_document ! 0) ! 1) = None"
    by (simp_all add: example_document_def example_cards_def querySelector_def)
  from extractor_records [of example_document "[1, 2]"] a b c
  show ?thesis by blast
qed

text \<open>
  C10 (login). \<open>POST /auth/login\<close> with a missing or empty user name or password
  answers 400 with an error body and leaves the session as it was; the 401 answer is
  given only when both fields are present and not empty and the pair is not a
  configured credential pair, and it leaves the session as it was too.
\<close>

theorem login_missing_field_400:
  "((username b = None \<or> username b = Some [] \<or> password b = None \<or> password b = Some [])
      \<longrightarrow> auth_login USERS b s = (ReplyError 400 MissingCredentials, s))
   \<and> (reply_status (fst (auth_login USERS b s)) = 401
      \<longrightarrow> (\<exists>u p. username b = Some u \<and> u \<noteq> [] \<and> password b = Some p \<and> p \<noteq> []
                 \<and> map_of USERS u \<noteq> Some p
                 \<and> snd (auth_login USERS b s) = s))"
  by (auto simp: auth_login_def falsy_str_def users_lookup_def split: option.splits if_splits)

theorem login_missing_field_400_witness:
  "auth_login default_USERS \<lparr>username = Some ''gui'', password = Some []\<rparr> \<lparr>user = None\<rparr>
     = (ReplyError 400 MissingCredentials, \<lparr>user = None\<rparr>)
   \<and> reply_status (fst (auth_login default_USERS \<lparr>username = Some ''gui'', password = Some ''x''\<rparr> \<lparr>user = None\<rparr>)) = 401
   \<and> snd (auth_login default_USERS \<lparr>username = Some ''gui'', password = Some ''x''\<rparr> \<lparr>user = None\<rparr>) = \<lparr>user = None\<rparr>"
  using login_missing_field_400 [of "\<lparr>username = Some ''gui'', password = Some []\<rparr>" default_USERS "\<lparr>user = None\<rparr>"]
        login_missing_field_400 [of "\<lparr>username = Some ''gui'', password = Some ''x''\<rparr>" default_USERS "\<lparr>user = None\<rparr>"]
  by (simp add: auth_login_def falsy_str_def users_lookup_def default_USERS_def)

end
